theory Spec2Isabelle
  imports Main "HOL-Library.Word"
begin

section \<open>The book downloader \<^verbatim>\<open>data/books/download_books.py\<close>\<close>

text \<open>
  The script fetches a fixed table of Project Gutenberg books over HTTP and stores each
  as a text file beside the script. Everything it does is an effect (network, filesystem,
  console), so the embedding passes an explicit state and takes what the outside world
  answers as a parameter. Every library call of the source that can raise, \<^verbatim>\<open>print\<close>
  included, is a branch of the model that returns the exception as a value.
\<close>

subsection \<open>Python values\<close>

text \<open>
  Names, console lines and messages are written as Isabelle strings. The text of a book
  is a list of Unicode code points, which is what a Python \<^verbatim>\<open>str\<close> is; \<^verbatim>\<open>bytes\<close> are
  8-bit words.
\<close>

type_synonym str = string
type_synonym unicode = "nat list"
type_synonym bytes = "8 word list"
type_synonym path = string

text \<open>
  Exceptions. The source names no exception class of its own; what it can meet are the
  classes its library calls raise. \<open>isinstance_Exception\<close> is Python's
  \<^verbatim>\<open>isinstance(e, Exception)\<close>: \<^verbatim>\<open>KeyboardInterrupt\<close>, \<^verbatim>\<open>SystemExit\<close> and
  \<^verbatim>\<open>GeneratorExit\<close> derive from \<^verbatim>\<open>BaseException\<close> only. \<open>message\<close> is
  \<^verbatim>\<open>str(e)\<close>.
\<close>

datatype exc_class =
    URLError | HTTPError | UnicodeDecodeError | OSError | ValueError
  | KeyboardInterrupt | SystemExit | GeneratorExit

datatype py_exception = PyExc (cls: exc_class) (message: str)

fun isinstance_Exception :: "py_exception \<Rightarrow> bool" where
  "isinstance_Exception (PyExc KeyboardInterrupt _) = False"
| "isinstance_Exception (PyExc SystemExit _) = False"
| "isinstance_Exception (PyExc GeneratorExit _) = False"
| "isinstance_Exception (PyExc _ _) = True"

text \<open>Decimal rendering of an integer, as an f-string renders \<^verbatim>\<open>{book_id}\<close>.\<close>

definition digit_char :: "nat \<Rightarrow> char" where
  "digit_char d = char_of (48 + d)"

function str_nat :: "nat \<Rightarrow> str" where
  "str_nat n = (if n < 10 then [digit_char n] else str_nat (n div 10) @ [digit_char (n mod 10)])"
  by pat_completeness auto
termination
  by (relation "measure id") auto

definition str_int :: "int \<Rightarrow> str" where
  "str_int i = (if i < 0 then CHR ''-'' # str_nat (nat (- i)) else str_nat (nat i))"

definition NL :: char where
  "NL = CHR 0x0A"

subsection \<open>The request, the world and the state\<close>

text \<open>
  \<^verbatim>\<open>urllib.request.Request(url, headers=...)\<close>: no \<^verbatim>\<open>data\<close> is given, and
  \<^verbatim>\<open>get_method\<close> of urllib answers GET exactly then.
\<close>

record request =
  url :: str
  headers :: "(str \<times> str) list"
  data :: "bytes option"

definition get_method :: "request \<Rightarrow> str" where
  "get_method r = (if data r = None then ''GET'' else ''POST'')"

text \<open>
  What the outside world does during one call of \<^verbatim>\<open>download_gutenberg_book\<close>:
  \<^item> \<open>urlopen\<close>: \<^verbatim>\<open>urllib.request.urlopen(request)\<close> raises (unreachable host: URLError;
    status outside 2xx: HTTPError) or gives a response, and the response is what its
    \<^verbatim>\<open>read()\<close> does: raise, or give the body;
  \<^item> \<open>open_w\<close>: \<^verbatim>\<open>open(path, "w", encoding="utf-8")\<close> raises (\<open>Some e\<close>) and touches
    nothing, or creates or truncates the file (\<open>None\<close>);
  \<^item> \<open>fwrite\<close>: writing the text and closing the file raises after \<open>k\<close> characters
    have reached the file (\<open>Some (e, k)\<close>) or stores all of it (\<open>None\<close>);
  \<^item> \<open>console\<close>: \<^verbatim>\<open>print(line)\<close> raises (\<open>Some e\<close>: a closed pipe, a line the console
    cannot encode) and shows nothing, or shows the line (\<open>None\<close>).
  A world gives these answers for the n-th call of the process, so the same item may
  succeed once and fail later.
\<close>

type_synonym response = "py_exception + bytes"

record io =
  urlopen :: "request \<Rightarrow> py_exception + response"
  open_w :: "path \<Rightarrow> py_exception option"
  fwrite :: "path \<Rightarrow> unicode \<Rightarrow> (py_exception \<times> nat) option"
  console :: "str \<Rightarrow> py_exception option"

type_synonym world = "nat \<Rightarrow> io"

text \<open>The world that answers the same way at every call.\<close>

definition steady :: "io \<Rightarrow> world" where
  "steady env n = env"

text \<open>
  The pure library functions the script uses, its own location and the platform:
  \<^verbatim>\<open>__file__\<close>, \<^verbatim>\<open>Path.parent\<close>, the \<^verbatim>\<open>/\<close> of \<^verbatim>\<open>pathlib\<close>,
  \<^verbatim>\<open>bytes.decode("utf-8")\<close> and \<^verbatim>\<open>os.linesep\<close>. A path is represented by its
  \<^verbatim>\<open>str()\<close>.
\<close>

record runtime =
  script_file :: path
  parent :: "path \<Rightarrow> path"
  joinpath :: "path \<Rightarrow> str \<Rightarrow> path"
  decode_utf8 :: "bytes \<Rightarrow> py_exception + unicode"
  linesep :: unicode

text \<open>
  The state: the value of the module's global \<^verbatim>\<open>BOOKS\<close>, the files (by path, with
  their text), the lines the console has shown (each entry is the argument of one call of
  \<^verbatim>\<open>print\<close>; the console shows it followed by a line break), the requests handed to
  \<^verbatim>\<open>urlopen\<close> in order, and, as instrumentation, the calls of
  \<^verbatim>\<open>download_gutenberg_book\<close> in order.
\<close>

record state =
  books :: "(int \<times> str) list"
  files :: "path \<rightharpoonup> unicode"
  stdout :: "str list"
  requests :: "request list"
  calls :: "(int \<times> str) list"

definition emit :: "str \<Rightarrow> state \<Rightarrow> state" where
  "emit s st = st\<lparr>stdout := stdout st @ [s]\<rparr>"

definition print :: "io \<Rightarrow> str \<Rightarrow> state \<Rightarrow> py_exception + state" where
  "print env s st = (case console env s of Some e \<Rightarrow> Inl e | None \<Rightarrow> Inr (emit s st))"

text \<open>
  The file is opened in text mode with the default \<^verbatim>\<open>newline=None\<close>: on writing, every
  line feed of the text becomes \<^verbatim>\<open>os.linesep\<close>.
\<close>

definition translate_newlines :: "unicode \<Rightarrow> unicode \<Rightarrow> unicode" where
  "translate_newlines sep t = concat (map (\<lambda>c. if c = 10 then sep else [c]) t)"

subsection \<open>The script\<close>

definition BOOKS :: "(int \<times> str) list" where
  "BOOKS =
    [(1342, ''pride-and-prejudice''),
     (2701, ''moby-dick''),
     (84, ''frankenstein''),
     (76, ''adventures-of-huckleberry-finn''),
     (1661, ''adventures-of-sherlock-holmes''),
     (1400, ''great-expectations''),
     (2600, ''war-and-peace''),
     (2554, ''crime-and-punishment''),
     (219, ''heart-of-darkness''),
     (829, ''gullivers-travels'')]"

definition OUTPUT_DIR :: "runtime \<Rightarrow> path" where
  "OUTPUT_DIR rt = parent rt (script_file rt)"

definition book_url :: "int \<Rightarrow> str" where
  "book_url book_id =
     ''https://www.gutenberg.org/cache/epub/'' @ str_int book_id @ ''/pg'' @ str_int book_id @ ''.txt''"

definition book_request :: "int \<Rightarrow> request" where
  "book_request book_id =
     \<lparr>url = book_url book_id, headers = [(''User-Agent'', ''Python-urllib/3.x'')], data = None\<rparr>"

definition output_path :: "runtime \<Rightarrow> str \<Rightarrow> path" where
  "output_path rt filename = joinpath rt (OUTPUT_DIR rt) (filename @ ''.txt'')"

text \<open>
  \<^verbatim>\<open>download_gutenberg_book\<close> has no handler of its own: whatever a library call raises
  leaves the function as it is, with the effects done so far kept in the state.
\<close>

definition download_gutenberg_book ::
  "runtime \<Rightarrow> world \<Rightarrow> int \<Rightarrow> str \<Rightarrow> state \<Rightarrow> (py_exception + path) \<times> state" where
  "download_gutenberg_book rt w book_id filename st =
    (let env = w (length (calls st));
         request = book_request book_id;
         st1 = st\<lparr>calls := calls st @ [(book_id, filename)],
                   requests := requests st @ [request]\<rparr>
     in case urlopen env request of
          Inl e \<Rightarrow> (Inl e, st1)
        | Inr response \<Rightarrow>
           (case response of
              Inl e \<Rightarrow> (Inl e, st1)
            | Inr body \<Rightarrow>
               (case decode_utf8 rt body of
                  Inl e \<Rightarrow> (Inl e, st1)
                | Inr content \<Rightarrow>
                   (case open_w env (output_path rt filename) of
                      Some e \<Rightarrow> (Inl e, st1)
                    | None \<Rightarrow>
                       (case fwrite env (output_path rt filename) content of
                          Some (e, k) \<Rightarrow>
                            (Inl e, st1\<lparr>files := (files st1)(output_path rt filename \<mapsto>
                                        take k (translate_newlines (linesep rt) content))\<rparr>)
                        | None \<Rightarrow>
                            (let st2 = st1\<lparr>files := (files st1)(output_path rt filename \<mapsto>
                                              translate_newlines (linesep rt) content)\<rparr>
                             in case print env (''Downloaded: '' @ filename @ ''.txt'') st2 of
                                  Inl e \<Rightarrow> (Inl e, st2)
                                | Inr st3 \<Rightarrow> (Inr (output_path rt filename), st3)))))))"

text \<open>
  The loop of \<^verbatim>\<open>download_all_books\<close> over a list of items. \<^verbatim>\<open>except Exception\<close>
  handles the instances of \<^verbatim>\<open>Exception\<close> and lets every other exception pass; what the
  \<^verbatim>\<open>print\<close> inside the handler raises is not handled either. The handler's
  \<^verbatim>\<open>print\<close> meets the console of the call it follows.
\<close>

fun download_books :: "runtime \<Rightarrow> world \<Rightarrow> (int \<times> str) list \<Rightarrow> state \<Rightarrow> (py_exception + unit) \<times> state" where
  "download_books rt w [] st = (Inr (), st)"
| "download_books rt w ((book_id, filename) # rest) st =
     (case download_gutenberg_book rt w book_id filename st of
        (Inr p, st') \<Rightarrow> download_books rt w rest st'
      | (Inl e, st') \<Rightarrow>
          if isinstance_Exception e
          then (case print (w (length (calls st)))
                       (''Failed to download '' @ filename @ '': '' @ message e) st' of
                  Inl e' \<Rightarrow> (Inl e', st')
                | Inr st'' \<Rightarrow> download_books rt w rest st'')
          else (Inl e, st'))"

definition download_all_books :: "runtime \<Rightarrow> world \<Rightarrow> state \<Rightarrow> (py_exception + unit) \<times> state" where
  "download_all_books rt w st = download_books rt w (books st) st"

text \<open>
  The script run as a program: the assignment of \<^verbatim>\<open>BOOKS\<close> at the top of the module, then
  the block under \<^verbatim>\<open>if __name__ == "__main__"\<close>. Its lines before the batch meet the
  console of the first call to come, its last line that of the call after the batch.
\<close>

definition main :: "runtime \<Rightarrow> world \<Rightarrow> state \<Rightarrow> (py_exception + unit) \<times> state" where
  "main rt w st =
    (let st0 = st\<lparr>books := BOOKS\<rparr>;
         env = w (length (calls st0))
     in case print env (''Downloading '' @ str_int (int (length (books st0)))
                          @ '' classic books from Project Gutenberg...'') st0 of
          Inl e \<Rightarrow> (Inl e, st0)
        | Inr st1 \<Rightarrow>
           (case print env (''Saving to: '' @ OUTPUT_DIR rt @ [NL]) st1 of
              Inl e \<Rightarrow> (Inl e, st1)
            | Inr st2 \<Rightarrow>
               (case download_all_books rt w st2 of
                  (Inl e, st3) \<Rightarrow> (Inl e, st3)
                | (Inr u, st3) \<Rightarrow>
                   (case print (w (length (calls st3))) (NL # ''Done!'') st3 of
                      Inl e \<Rightarrow> (Inl e, st3)
                    | Inr st4 \<Rightarrow> (Inr (), st4)))))"

subsection \<open>Vocabulary of the properties\<close>

text \<open>
  \<open>no_interrupts\<close>: whatever the library calls of a download raise is an instance of
  \<^verbatim>\<open>Exception\<close> (a network error, a bad status, a decoding error, a filesystem error),
  never an exit-style exception such as \<^verbatim>\<open>KeyboardInterrupt\<close>. \<open>console_ok\<close>: the
  console takes every line.
\<close>

definition no_interrupts :: "runtime \<Rightarrow> world \<Rightarrow> bool" where
  "no_interrupts rt w \<longleftrightarrow>
     (\<forall>n r e. urlopen (w n) r = Inl e \<longrightarrow> isinstance_Exception e) \<and>
     (\<forall>n r e. urlopen (w n) r = Inr (Inl e) \<longrightarrow> isinstance_Exception e) \<and>
     (\<forall>b e. decode_utf8 rt b = Inl e \<longrightarrow> isinstance_Exception e) \<and>
     (\<forall>n p e. open_w (w n) p = Some e \<longrightarrow> isinstance_Exception e) \<and>
     (\<forall>n p s e k. fwrite (w n) p s = Some (e, k) \<longrightarrow> isinstance_Exception e)"

definition console_ok :: "world \<Rightarrow> bool" where
  "console_ok w \<longleftrightarrow> (\<forall>n s. console (w n) s = None)"

text \<open>
  The result of one call depends on the item and on what the world does during that call
  only; \<open>outcome\<close> names it, and \<open>report_line\<close> is the console line that the item
  leaves: the one \<^verbatim>\<open>download_gutenberg_book\<close> prints on success, or the one the handler
  of \<^verbatim>\<open>download_all_books\<close> prints for an exception it catches.
\<close>

definition outcome :: "runtime \<Rightarrow> io \<Rightarrow> int \<Rightarrow> str \<Rightarrow> py_exception + path" where
  "outcome rt env book_id filename =
     fst (download_gutenberg_book rt (steady env) book_id filename
            \<lparr>books = [], files = Map.empty, stdout = [], requests = [], calls = []\<rparr>)"

definition report_line :: "runtime \<Rightarrow> io \<Rightarrow> int \<times> str \<Rightarrow> str" where
  "report_line rt env item =
     (case outcome rt env (fst item) (snd item) of
        Inr p \<Rightarrow> ''Downloaded: '' @ snd item @ ''.txt''
      | Inl e \<Rightarrow> ''Failed to download '' @ snd item @ '': '' @ message e)"

text \<open>
  One pass of the loop body over an item whose error, if any, is caught and reported: the
  call of \<^verbatim>\<open>download_gutenberg_book\<close> with all its effects, followed, when it raised, by the
  handler's line.
\<close>

definition attempt :: "runtime \<Rightarrow> world \<Rightarrow> int \<times> str \<Rightarrow> state \<Rightarrow> state" where
  "attempt rt w item st =
     (case download_gutenberg_book rt w (fst item) (snd item) st of
        (Inr p, st') \<Rightarrow> st'
      | (Inl e, st') \<Rightarrow> emit (''Failed to download '' @ snd item @ '': '' @ message e) st')"

text \<open>Two states that agree on everything but the files.\<close>

definition same_but_files :: "state \<Rightarrow> state \<Rightarrow> bool" where
  "same_but_files a b \<longleftrightarrow>
     books a = books b \<and> stdout a = stdout b \<and> requests a = requests b \<and> calls a = calls b"

subsection \<open>A concrete environment\<close>

text \<open>
  The UTF-8 decoder of CPython in strict mode: shortest forms only, no surrogates, nothing
  above U+10FFFF; an error names the first offending byte or range and its position.
\<close>

definition is_continuation :: "8 word \<Rightarrow> bool" where
  "is_continuation b \<longleftrightarrow> 0x80 \<le> b \<and> b < 0xC0"

definition hex_digit :: "nat \<Rightarrow> char" where
  "hex_digit d = (if d < 10 then char_of (48 + d) else char_of (87 + d))"

definition hex_byte :: "8 word \<Rightarrow> str" where
  "hex_byte b = [hex_digit (unat b div 16), hex_digit (unat b mod 16)]"

definition decode_error :: "8 word \<Rightarrow> nat \<Rightarrow> nat \<Rightarrow> str \<Rightarrow> py_exception" where
  "decode_error b pos len reason =
     PyExc UnicodeDecodeError
       ([CHR 0x27] @ ''utf-8'' @ [CHR 0x27] @ '' codec can'' @ [CHR 0x27] @ ''t decode ''
        @ (if len = 1 then ''byte 0x'' @ hex_byte b @ '' in position '' @ str_nat pos
           else ''bytes in position '' @ str_nat pos @ ''-'' @ str_nat (pos + len - 1))
        @ '': '' @ reason)"

definition invalid_start_at_1 :: str where
  "invalid_start_at_1 =
     [CHR 0x27] @ ''utf-8'' @ [CHR 0x27] @ '' codec can'' @ [CHR 0x27]
       @ ''t decode byte 0xff in position 1: invalid start byte''"

definition put :: "nat \<Rightarrow> py_exception + unicode \<Rightarrow> py_exception + unicode" where
  "put c r = (case r of Inl e \<Rightarrow> Inl e | Inr t \<Rightarrow> Inr (c # t))"

text \<open>
  The sequence that starts with byte \<open>b\<close>, followed by \<open>rest\<close>: a code point and the
  number of bytes of \<open>rest\<close> it takes, or the length of the offending range and the reason.
\<close>

datatype utf8_step = Good nat nat | Bad nat str

definition utf8_next :: "8 word \<Rightarrow> bytes \<Rightarrow> utf8_step" where
  "utf8_next b rest =
    (if b < 0x80 then Good (unat b) 0
     else if b < 0xC2 \<or> 0xF5 \<le> b then Bad 1 ''invalid start byte''
     else if b < 0xE0 then
       (case rest of
          [] \<Rightarrow> Bad 1 ''unexpected end of data''
        | b2 # r2 \<Rightarrow>
            if \<not> is_continuation b2 then Bad 1 ''invalid continuation byte''
            else Good ((unat b - 0xC0) * 64 + (unat b2 - 0x80)) 1)
     else if b < 0xF0 then
       (case rest of
          [] \<Rightarrow> Bad 1 ''unexpected end of data''
        | b2 # r2 \<Rightarrow>
            if \<not> is_continuation b2 \<or> (b = 0xE0 \<and> b2 < 0xA0) \<or> (b = 0xED \<and> 0xA0 \<le> b2)
            then Bad 1 ''invalid continuation byte''
            else
              (case r2 of
                 [] \<Rightarrow> Bad 2 ''unexpected end of data''
               | b3 # r3 \<Rightarrow>
                   if \<not> is_continuation b3 then Bad 2 ''invalid continuation byte''
                   else Good ((unat b - 0xE0) * 4096 + (unat b2 - 0x80) * 64 + (unat b3 - 0x80)) 2))
     else
       (case rest of
          [] \<Rightarrow> Bad 1 ''unexpected end of data''
        | b2 # r2 \<Rightarrow>
            if \<not> is_continuation b2 \<or> (b = 0xF0 \<and> b2 < 0x90) \<or> (b = 0xF4 \<and> 0x90 \<le> b2)
            then Bad 1 ''invalid continuation byte''
            else
              (case r2 of
                 [] \<Rightarrow> Bad 2 ''unexpected end of data''
               | b3 # r3 \<Rightarrow>
                   if \<not> is_continuation b3 then Bad 2 ''invalid continuation byte''
                   else
                     (case r3 of
                        [] \<Rightarrow> Bad 3 ''unexpected end of data''
                      | b4 # r4 \<Rightarrow>
                          if \<not> is_continuation b4 then Bad 3 ''invalid continuation byte''
                          else Good ((unat b - 0xF0) * 262144 + (unat b2 - 0x80) * 4096
                                      + (unat b3 - 0x80) * 64 + (unat b4 - 0x80)) 3))))"

fun utf8_from :: "nat \<Rightarrow> bytes \<Rightarrow> py_exception + unicode" where
  "utf8_from pos [] = Inr []"
| "utf8_from pos (b # rest) =
    (case utf8_next b rest of
       Good c k \<Rightarrow> put c (utf8_from (pos + Suc k) (drop k rest))
     | Bad len reason \<Rightarrow> Inl (decode_error b pos len reason))"

definition utf8_decode :: "bytes \<Rightarrow> py_exception + unicode" where
  "utf8_decode bs = utf8_from 0 bs"

text \<open>
  Paths as strings with a separator, and two platforms: a POSIX one, where the script
  lives in \<^verbatim>\<open>/srv/hearth/data/books\<close> and a line ends with a line feed, and a Windows
  one, where it lives in \<^verbatim>\<open>C:\hearth\data\books\<close> and a line ends with a carriage return
  and a line feed.
\<close>

definition dirname :: "char \<Rightarrow> path \<Rightarrow> path" where
  "dirname sep p = rev (tl (dropWhile (\<lambda>c. c \<noteq> sep) (rev p)))"

definition backslash :: char where
  "backslash = CHR 0x5C"

definition demo_rt :: runtime where
  "demo_rt = \<lparr>script_file = ''/srv/hearth/data/books/download_books.py'',
               parent = dirname CHR ''/'',
               joinpath = (\<lambda>d s. d @ ''/'' @ s),
               decode_utf8 = utf8_decode,
               linesep = [10]\<rparr>"

definition windows_rt :: runtime where
  "windows_rt = \<lparr>script_file = ''C:'' @ [backslash] @ ''hearth'' @ [backslash] @ ''data''
                                @ [backslash] @ ''books'' @ [backslash] @ ''download_books.py'',
                  parent = dirname backslash,
                  joinpath = (\<lambda>d s. d @ [backslash] @ s),
                  decode_utf8 = utf8_decode,
                  linesep = [13, 10]\<rparr>"

text \<open>
  \<open>codes\<close> gives the code points of an ASCII string. \<open>chapter_bytes\<close> is the text
  \<^verbatim>\<open>Chapter 1...\<close> in UTF-8, \<open>line_bytes\<close> the line \<^verbatim>\<open>Chapter 1\<close> ended by a carriage
  return and a line feed, as the archive ends its lines.
\<close>

definition codes :: "string \<Rightarrow> unicode" where
  "codes s = map of_char s"

definition chapter_bytes :: bytes where
  "chapter_bytes = [0x43, 0x68, 0x61, 0x70, 0x74, 0x65, 0x72, 0x20, 0x31, 0x2E, 0x2E, 0x2E]"

definition line_bytes :: bytes where
  "line_bytes = [0x43, 0x68, 0x61, 0x70, 0x74, 0x65, 0x72, 0x20, 0x31, 0x0D, 0x0A]"

text \<open>
  Worlds. In \<open>demo_world\<close> the first call is served, the second meets status 404, the
  third a body that is not UTF-8, the fourth a directory that cannot be written, the
  fifth a full disk; in \<open>interrupted_world\<close> the second call is interrupted from the
  keyboard; in \<open>changing_world\<close> the archive serves another text from the second call
  on. In all of them the console takes every line, except with \<open>closed_pipe\<close>.
\<close>

definition st0 :: state where
  "st0 = \<lparr>books = [], files = Map.empty, stdout = [], requests = [], calls = []\<rparr>"

definition serve :: "bytes \<Rightarrow> io" where
  "serve body = \<lparr>urlopen = (\<lambda>r. Inr (Inr body)), open_w = (\<lambda>p. None),
                  fwrite = (\<lambda>p s. None), console = (\<lambda>s. None)\<rparr>"

definition not_found :: io where
  "not_found = \<lparr>urlopen = (\<lambda>r. Inl (PyExc HTTPError ''HTTP Error 404: Not Found'')),
                 open_w = (\<lambda>p. None), fwrite = (\<lambda>p s. None), console = (\<lambda>s. None)\<rparr>"

definition read_only :: io where
  "read_only = \<lparr>urlopen = (\<lambda>r. Inr (Inr chapter_bytes)),
                 open_w = (\<lambda>p. Some (PyExc OSError
                            (''[Errno 13] Permission denied: '' @ [CHR 0x27] @ p @ [CHR 0x27]))),
                 fwrite = (\<lambda>p s. None), console = (\<lambda>s. None)\<rparr>"

definition disk_full :: io where
  "disk_full = \<lparr>urlopen = (\<lambda>r. Inr (Inr chapter_bytes)),
                 open_w = (\<lambda>p. None),
                 fwrite = (\<lambda>p s. Some (PyExc OSError ''[Errno 28] No space left on device'', 7)),
                 console = (\<lambda>s. None)\<rparr>"

definition ctrl_c :: io where
  "ctrl_c = \<lparr>urlopen = (\<lambda>r. Inl (PyExc KeyboardInterrupt [])),
              open_w = (\<lambda>p. None), fwrite = (\<lambda>p s. None), console = (\<lambda>s. None)\<rparr>"

definition closed_pipe :: io where
  "closed_pipe = \<lparr>urlopen = (\<lambda>r. Inr (Inr chapter_bytes)), open_w = (\<lambda>p. None),
                   fwrite = (\<lambda>p s. None),
                   console = (\<lambda>s. Some (PyExc OSError ''[Errno 32] Broken pipe''))\<rparr>"

definition demo_world :: world where
  "demo_world n =
     (if n = 1 then not_found
      else if n = 2 then serve [0x43, 0xFF]
      else if n = 3 then read_only
      else if n = 4 then disk_full
      else serve chapter_bytes)"

definition interrupted_world :: world where
  "interrupted_world n = (if n = 1 then ctrl_c else serve chapter_bytes)"

definition changing_world :: world where
  "changing_world n = (if n = 0 then serve chapter_bytes else serve line_bytes)"

section \<open>Properties\<close>

subsection \<open>The concrete environment\<close>

lemma decode_chapter: "utf8_decode chapter_bytes = Inr (codes ''Chapter 1...'')"
  unfolding chapter_bytes_def codes_def by code_simp

lemma decode_line: "utf8_decode line_bytes = Inr (codes ''Chapter 1'' @ [13, 10])"
  unfolding line_bytes_def codes_def by code_simp

lemma decode_bad:
  "utf8_decode [0x43, 0xFF] = Inl (PyExc UnicodeDecodeError invalid_start_at_1)"
  unfolding invalid_start_at_1_def by code_simp

lemma decode_beyond_ascii:
  "utf8_decode [0xEF, 0xBB, 0xBF, 0xE2, 0x80, 0x94, 0xC3, 0xA9, 0xF0, 0x9F, 0x93, 0x96]
     = Inr [0xFEFF, 0x2014, 0xE9, 0x1F4D6]"
  by (simp add: utf8_decode_def utf8_next_def is_continuation_def put_def)

lemma decode_truncated:
  "utf8_decode [0xE2, 0x80]
     = Inl (PyExc UnicodeDecodeError
             ([CHR 0x27] @ ''utf-8'' @ [CHR 0x27] @ '' codec can'' @ [CHR 0x27]
               @ ''t decode bytes in position 0-1: unexpected end of data''))"
  by code_simp

lemma decode_surrogate:
  "utf8_decode [0x41, 0xED, 0xA0, 0x80]
     = Inl (PyExc UnicodeDecodeError
             ([CHR 0x27] @ ''utf-8'' @ [CHR 0x27] @ '' codec can'' @ [CHR 0x27]
               @ ''t decode byte 0xed in position 1: invalid continuation byte''))"
  by code_simp

lemma utf8_from_Exception: "utf8_from pos bs = Inl e \<Longrightarrow> isinstance_Exception e"
  by (induction pos bs rule: utf8_from.induct)
     (auto simp add: decode_error_def put_def split: utf8_step.splits sum.splits)

lemma utf8_decode_Exception: "utf8_decode bs = Inl e \<Longrightarrow> isinstance_Exception e"
  by (simp add: utf8_decode_def utf8_from_Exception)

lemma steady_at [simp]: "steady env n = env"
  by (simp add: steady_def)

lemma book_url_example:
  "book_url 1342 = ''https://www.gutenberg.org/cache/epub/1342/pg1342.txt''"
  "str_int (- 5) = ''-5''"
  by code_simp+

lemma str_int_10: "str_int (int (length BOOKS)) = ''10''"
  unfolding BOOKS_def by code_simp

lemma output_dir_demo: "OUTPUT_DIR demo_rt = ''/srv/hearth/data/books''"
  unfolding demo_rt_def OUTPUT_DIR_def dirname_def by simp

lemma output_path_demo: "output_path demo_rt filename = ''/srv/hearth/data/books/'' @ filename @ ''.txt''"
  by (simp add: output_path_def output_dir_demo) (simp add: demo_rt_def)

lemma output_dir_windows:
  "OUTPUT_DIR windows_rt = ''C:'' @ [backslash] @ ''hearth'' @ [backslash] @ ''data'' @ [backslash] @ ''books''"
  unfolding windows_rt_def OUTPUT_DIR_def dirname_def backslash_def by simp

lemma demo_rt_fields [simp]:
  "decode_utf8 demo_rt = utf8_decode" "linesep demo_rt = [10]"
  "decode_utf8 windows_rt = utf8_decode" "linesep windows_rt = [13, 10]"
  by (simp_all add: demo_rt_def windows_rt_def)

lemmas io_defs = serve_def not_found_def read_only_def disk_full_def ctrl_c_def closed_pipe_def

lemma no_interrupts_demo: "no_interrupts demo_rt demo_world"
  by (auto simp add: no_interrupts_def demo_world_def io_defs dest: utf8_decode_Exception
      split: if_splits)

lemma console_ok_demo: "console_ok demo_world"
  by (simp add: console_ok_def demo_world_def io_defs)

lemma no_interrupts_changing: "no_interrupts demo_rt changing_world"
  by (auto simp add: no_interrupts_def changing_world_def serve_def dest: utf8_decode_Exception
      split: if_splits)

lemma console_ok_changing: "console_ok changing_world"
  by (simp add: console_ok_def changing_world_def serve_def)

lemma no_interrupts_steady: "no_interrupts demo_rt (steady (serve body))"
  by (auto simp add: no_interrupts_def serve_def dest: utf8_decode_Exception)

lemma console_ok_steady: "console_ok (steady (serve body))"
  by (simp add: console_ok_def serve_def)

lemma st0_fields [simp]:
  "calls st0 = []" "stdout st0 = []" "requests st0 = []" "files st0 = Map.empty" "books st0 = []"
  by (simp_all add: st0_def)

lemma translate_newlines_lf [simp]: "translate_newlines [10] t = t"
  by (induction t) (simp_all add: translate_newlines_def)

lemma translate_newlines_none: "10 \<notin> set t \<Longrightarrow> translate_newlines sep t = t"
  by (induction t) (simp_all add: translate_newlines_def)

subsection \<open>One download\<close>

lemmas dl_defs = download_gutenberg_book_def Let_def print_def emit_def
lemmas dl_splits = sum.splits option.splits prod.splits

lemma emit_fields [simp]:
  "calls (emit s st) = calls st" "requests (emit s st) = requests st"
  "files (emit s st) = files st" "stdout (emit s st) = stdout st @ [s]"
  "books (emit s st) = books st"
  by (simp_all add: emit_def)

lemma print_ok: "console env s = None \<Longrightarrow> print env s st = Inr (emit s st)"
  by (simp add: print_def)

lemma print_raises: "console env s = Some e \<Longrightarrow> print env s st = Inl e"
  by (simp add: print_def)

lemma download_gutenberg_book_log:
  "calls (snd (download_gutenberg_book rt w book_id filename st)) = calls st @ [(book_id, filename)]
   \<and> requests (snd (download_gutenberg_book rt w book_id filename st)) = requests st @ [book_request book_id]
   \<and> books (snd (download_gutenberg_book rt w book_id filename st)) = books st"
  by (simp add: dl_defs split: dl_splits)

lemma download_result_outcome:
  "fst (download_gutenberg_book rt w book_id filename st) =
     outcome rt (w (length (calls st))) book_id filename"
  by (simp add: outcome_def dl_defs split: dl_splits)

lemma download_raises_cases:
  "fst (download_gutenberg_book rt w book_id filename st) = Inl e \<longleftrightarrow>
     (let env = w (length (calls st)); r = book_request book_id; p = output_path rt filename in
      urlopen env r = Inl e \<or> urlopen env r = Inr (Inl e) \<or>
      (\<exists>body. urlopen env r = Inr (Inr body) \<and>
         (decode_utf8 rt body = Inl e \<or>
          (\<exists>content. decode_utf8 rt body = Inr content \<and>
             (open_w env p = Some e \<or>
              (open_w env p = None \<and>
                ((\<exists>k. fwrite env p content = Some (e, k)) \<or>
                 (fwrite env p content = None
                   \<and> console env (''Downloaded: '' @ filename @ ''.txt'') = Some e))))))))"
  by (auto simp add: dl_defs split: dl_splits)

lemma download_no_interrupt:
  assumes "no_interrupts rt w" and "console_ok w"
    and "fst (download_gutenberg_book rt w book_id filename st) = Inl e"
  shows "isinstance_Exception e"
proof -
  have "console (w (length (calls st))) (''Downloaded: '' @ filename @ ''.txt'') \<noteq> Some e"
    using assms(2) by (simp add: console_ok_def)
  with assms(1,3) show ?thesis
    unfolding download_raises_cases no_interrupts_def Let_def by blast
qed

lemma download_success_cases:
  "fst (download_gutenberg_book rt w book_id filename st) = Inr p \<longleftrightarrow>
     (let env = w (length (calls st)); r = book_request book_id in
      p = output_path rt filename \<and>
      (\<exists>body content. urlopen env r = Inr (Inr body) \<and> decode_utf8 rt body = Inr content \<and>
         open_w env p = None \<and> fwrite env p content = None \<and>
         console env (''Downloaded: '' @ filename @ ''.txt'') = None))"
  by (auto simp add: dl_defs split: dl_splits)

lemma download_success_state:
  assumes "urlopen (w (length (calls st))) (book_request book_id) = Inr (Inr body)"
    and "decode_utf8 rt body = Inr content"
    and "open_w (w (length (calls st))) (output_path rt filename) = None"
    and "fwrite (w (length (calls st))) (output_path rt filename) content = None"
    and "console (w (length (calls st))) (''Downloaded: '' @ filename @ ''.txt'') = None"
  shows "download_gutenberg_book rt w book_id filename st =
     (Inr (output_path rt filename),
      st\<lparr>files := (files st)(output_path rt filename \<mapsto> translate_newlines (linesep rt) content),
         stdout := stdout st @ [''Downloaded: '' @ filename @ ''.txt''],
         requests := requests st @ [book_request book_id],
         calls := calls st @ [(book_id, filename)]\<rparr>)"
  using assms by (simp add: dl_defs)

lemma download_print_failure_state:
  assumes "urlopen (w (length (calls st))) (book_request book_id) = Inr (Inr body)"
    and "decode_utf8 rt body = Inr content"
    and "open_w (w (length (calls st))) (output_path rt filename) = None"
    and "fwrite (w (length (calls st))) (output_path rt filename) content = None"
    and "console (w (length (calls st))) (''Downloaded: '' @ filename @ ''.txt'') = Some e"
  shows "download_gutenberg_book rt w book_id filename st =
     (Inl e,
      st\<lparr>files := (files st)(output_path rt filename \<mapsto> translate_newlines (linesep rt) content),
         requests := requests st @ [book_request book_id],
         calls := calls st @ [(book_id, filename)]\<rparr>)"
  using assms by (simp add: dl_defs)

lemma download_early_failure_state:
  assumes "urlopen (w (length (calls st))) (book_request book_id) = Inl e
     \<or> urlopen (w (length (calls st))) (book_request book_id) = Inr (Inl e)
     \<or> (\<exists>body. urlopen (w (length (calls st))) (book_request book_id) = Inr (Inr body)
          \<and> (decode_utf8 rt body = Inl e
             \<or> (\<exists>content. decode_utf8 rt body = Inr content
                  \<and> open_w (w (length (calls st))) (output_path rt filename) = Some e)))"
  shows "download_gutenberg_book rt w book_id filename st =
     (Inl e, st\<lparr>requests := requests st @ [book_request book_id],
                calls := calls st @ [(book_id, filename)]\<rparr>)"
  using assms by (auto simp add: dl_defs)

lemma download_write_failure_state:
  assumes "urlopen (w (length (calls st))) (book_request book_id) = Inr (Inr body)"
    and "decode_utf8 rt body = Inr content"
    and "open_w (w (length (calls st))) (output_path rt filename) = None"
    and "fwrite (w (length (calls st))) (output_path rt filename) content = Some (e, k)"
  shows "download_gutenberg_book rt w book_id filename st =
     (Inl e, st\<lparr>files := (files st)(output_path rt filename \<mapsto>
                            take k (translate_newlines (linesep rt) content)),
                requests := requests st @ [book_request book_id],
                calls := calls st @ [(book_id, filename)]\<rparr>)"
  using assms by (simp add: dl_defs)

lemma download_stdout:
  "stdout (snd (download_gutenberg_book rt w book_id filename st)) =
     (case fst (download_gutenberg_book rt w book_id filename st) of
        Inr p \<Rightarrow> stdout st @ [''Downloaded: '' @ filename @ ''.txt'']
      | Inl e \<Rightarrow> stdout st)"
  by (simp add: dl_defs split: dl_splits)

lemma download_frame:
  "q \<noteq> output_path rt filename \<Longrightarrow>
     files (snd (download_gutenberg_book rt w book_id filename st)) q = files st q"
  by (simp add: dl_defs split: dl_splits)

lemma download_same_but_files:
  assumes "same_but_files a b"
  shows "fst (download_gutenberg_book rt w book_id filename a) =
           fst (download_gutenberg_book rt w book_id filename b)
         \<and> same_but_files (snd (download_gutenberg_book rt w book_id filename a))
              (snd (download_gutenberg_book rt w book_id filename b))"
  using assms by (simp add: same_but_files_def dl_defs split: dl_splits)

lemma emit_same_but_files:
  "same_but_files a b \<Longrightarrow> same_but_files (emit s a) (emit s b)"
  by (simp add: same_but_files_def)

subsection \<open>The loop\<close>

lemma attempt_log:
  "calls (attempt rt w item st) = calls st @ [item]"
  "requests (attempt rt w item st) = requests st @ [book_request (fst item)]"
  "books (attempt rt w item st) = books st"
  using download_gutenberg_book_log [of rt w "fst item" "snd item" st]
  by (auto simp add: attempt_def split: dl_splits)

lemma attempt_stdout:
  "stdout (attempt rt w item st) = stdout st @ [report_line rt (w (length (calls st))) item]"
  using download_stdout [of rt w "fst item" "snd item" st]
    download_result_outcome [of rt w "fst item" "snd item" st]
  by (auto simp add: attempt_def report_line_def split: dl_splits)

lemma attempt_frame:
  "q \<noteq> output_path rt (snd item) \<Longrightarrow> files (attempt rt w item st) q = files st q"
  using download_frame [of q rt "snd item" w "fst item" st]
  by (auto simp add: attempt_def split: dl_splits)

lemma fold_attempt_log:
  "calls (fold (attempt rt w) items st) = calls st @ items"
  "requests (fold (attempt rt w) items st) = requests st @ map (\<lambda>item. book_request (fst item)) items"
  "books (fold (attempt rt w) items st) = books st"
  by (induction items arbitrary: st) (simp_all add: attempt_log)

lemma fold_attempt_stdout:
  "stdout (fold (attempt rt w) items st) =
     stdout st @ map (\<lambda>(n, item). report_line rt (w n) item) (enumerate (length (calls st)) items)"
  by (induction items arbitrary: st) (simp_all add: attempt_log attempt_stdout)

lemma fold_attempt_frame:
  "\<forall>item \<in> set items. output_path rt (snd item) \<noteq> q \<Longrightarrow>
     files (fold (attempt rt w) items st) q = files st q"
  by (induction items arbitrary: st) (auto simp add: attempt_frame)

lemma download_books_append:
  "download_books rt w (xs @ ys) st =
     (case download_books rt w xs st of
        (Inl e, st') \<Rightarrow> (Inl e, st')
      | (Inr u, st') \<Rightarrow> download_books rt w ys st')"
  by (induction xs arbitrary: st) (auto split: dl_splits)

lemma download_books_fold:
  assumes "no_interrupts rt w" and "console_ok w"
  shows "download_books rt w items st = (Inr (), fold (attempt rt w) items st)"
proof (induction items arbitrary: st)
  case Nil
  show ?case by simp
next
  case (Cons item items)
  obtain book_id filename where item: "item = (book_id, filename)" by (cases item)
  obtain r st' where dl: "download_gutenberg_book rt w book_id filename st = (r, st')"
    by (cases "download_gutenberg_book rt w book_id filename st")
  show ?case
  proof (cases r)
    case (Inr p)
    with Cons.IH [of st'] item dl show ?thesis by (simp add: attempt_def)
  next
    case (Inl e)
    with assms dl have "isinstance_Exception e"
      using download_no_interrupt [of rt w book_id filename st e] by simp
    moreover have "print (w (length (calls st))) (''Failed to download '' @ filename @ '': '' @ message e) st'
        = Inr (emit (''Failed to download '' @ filename @ '': '' @ message e) st')"
      using assms(2) by (simp add: print_ok console_ok_def)
    ultimately show ?thesis
      using Cons.IH [of "emit (''Failed to download '' @ filename @ '': '' @ message e) st'"]
        item dl Inl
      by (simp add: attempt_def)
  qed
qed

lemma download_books_books:
  "books (snd (download_books rt w items st)) = books st"
proof (induction items arbitrary: st)
  case Nil
  show ?case by simp
next
  case (Cons item items)
  obtain book_id filename where item: "item = (book_id, filename)" by (cases item)
  obtain r st' where dl: "download_gutenberg_book rt w book_id filename st = (r, st')"
    by (cases "download_gutenberg_book rt w book_id filename st")
  have b: "books st' = books st"
    using download_gutenberg_book_log [of rt w book_id filename st] dl by simp
  show ?case
    using Cons.IH [of st'] Cons.IH [of "emit (''Failed to download '' @ filename @ '': '' @ message e) st'" for e]
      item dl b
    by (auto simp add: print_def split: dl_splits)
qed

lemma download_books_returns_log:
  "fst (download_books rt w items st) = Inr () \<Longrightarrow>
     calls (snd (download_books rt w items st)) = calls st @ items \<and>
     requests (snd (download_books rt w items st)) =
       requests st @ map (\<lambda>item. book_request (fst item)) items"
proof (induction items arbitrary: st)
  case Nil
  show ?case by simp
next
  case (Cons item items)
  obtain book_id filename where item: "item = (book_id, filename)" by (cases item)
  obtain r st' where dl: "download_gutenberg_book rt w book_id filename st = (r, st')"
    by (cases "download_gutenberg_book rt w book_id filename st")
  have log: "calls st' = calls st @ [(book_id, filename)]"
            "requests st' = requests st @ [book_request book_id]"
    using download_gutenberg_book_log [of rt w book_id filename st] dl by simp_all
  show ?case
  proof (cases r)
    case (Inr p)
    with Cons.prems item dl have "fst (download_books rt w items st') = Inr ()" by simp
    from Cons.IH [OF this] Inr item dl log show ?thesis by simp
  next
    case (Inl e)
    let ?line = "''Failed to download '' @ filename @ '': '' @ message e"
    from Inl Cons.prems item dl
    have ok: "isinstance_Exception e \<and> console (w (length (calls st))) ?line = None
        \<and> fst (download_books rt w items (emit ?line st')) = Inr ()"
      by (auto simp add: print_def split: if_splits dl_splits)
    then have "fst (download_books rt w items (emit ?line st')) = Inr ()" by simp
    from Cons.IH [OF this] ok Inl item dl log show ?thesis
      by (simp add: print_def)
  qed
qed

lemma download_books_frame:
  "\<forall>item \<in> set items. output_path rt (snd item) \<noteq> q \<Longrightarrow>
     files (snd (download_books rt w items st)) q = files st q"
proof (induction items arbitrary: st)
  case Nil
  show ?case by simp
next
  case (Cons item items)
  obtain book_id filename where item: "item = (book_id, filename)" by (cases item)
  obtain r st' where dl: "download_gutenberg_book rt w book_id filename st = (r, st')"
    by (cases "download_gutenberg_book rt w book_id filename st")
  from Cons.prems item have q: "q \<noteq> output_path rt filename"
    and rest: "\<forall>item \<in> set items. output_path rt (snd item) \<noteq> q" by auto
  have f: "files st' q = files st q"
    using download_frame [OF q, of w book_id st] dl by simp
  show ?case
    using Cons.IH [OF rest, of st']
      Cons.IH [OF rest, of "emit (''Failed to download '' @ filename @ '': '' @ message e) st'" for e]
      item dl f
    by (auto simp add: print_def split: dl_splits)
qed

lemma download_books_same_but_files:
  "same_but_files a b \<Longrightarrow>
     fst (download_books rt w items a) = fst (download_books rt w items b)
     \<and> same_but_files (snd (download_books rt w items a)) (snd (download_books rt w items b))"
proof (induction items arbitrary: a b)
  case Nil
  then show ?case by simp
next
  case (Cons item items)
  obtain book_id filename where item: "item = (book_id, filename)" by (cases item)
  let ?da = "download_gutenberg_book rt w book_id filename a"
  let ?db = "download_gutenberg_book rt w book_id filename b"
  from download_same_but_files [OF Cons.prems, of rt w book_id filename]
  have r: "fst ?da = fst ?db" and s: "same_but_files (snd ?da) (snd ?db)" by simp_all
  from Cons.prems have c: "calls a = calls b" by (simp add: same_but_files_def)
  show ?case
  proof (cases "fst ?da")
    case (Inr p)
    with r have "fst ?db = Inr p" by simp
    with Inr Cons.IH [OF s] item show ?thesis
      by (simp add: case_prod_unfold)
  next
    case (Inl e)
    with r have b: "fst ?db = Inl e" by simp
    let ?line = "''Failed to download '' @ filename @ '': '' @ message e"
    show ?thesis
    proof (cases "isinstance_Exception e \<and> console (w (length (calls b))) ?line = None")
      case True
      with Inl b item c Cons.IH [OF emit_same_but_files [OF s, of ?line]]
      show ?thesis by (simp add: case_prod_unfold print_def)
    next
      case False
      with Inl b item s c show ?thesis
        by (auto simp add: case_prod_unfold print_def split: option.splits)
    qed
  qed
qed

subsection \<open>The files after a run\<close>

lemma download_files_delta:
  "\<exists>m. \<forall>st. w (length (calls st)) = env \<longrightarrow>
         files (snd (download_gutenberg_book rt w book_id filename st)) = files st ++ m"
proof (cases "urlopen env (book_request book_id)")
  case (Inl e)
  then show ?thesis by (intro exI [of _ Map.empty]) (simp add: dl_defs)
next
  case (Inr resp)
  show ?thesis
  proof (cases resp)
    case (Inl e)
    with Inr show ?thesis by (intro exI [of _ Map.empty]) (simp add: dl_defs)
  next
    case body: (Inr body)
    show ?thesis
    proof (cases "decode_utf8 rt body")
      case (Inl e)
      with Inr body show ?thesis by (intro exI [of _ Map.empty]) (simp add: dl_defs)
    next
      case content: (Inr content)
      show ?thesis
      proof (cases "open_w env (output_path rt filename)")
        case (Some e)
        with Inr body content show ?thesis by (intro exI [of _ Map.empty]) (simp add: dl_defs)
      next
        case None
        show ?thesis
        proof (cases "fwrite env (output_path rt filename) content")
          case (Some ek)
          with Inr body content None show ?thesis
            by (intro exI [of _ "[output_path rt filename \<mapsto>
                  take (snd ek) (translate_newlines (linesep rt) content)]"])
               (simp add: dl_defs split: prod.splits)
        next
          case nw: None
          with Inr body content None show ?thesis
            by (intro exI [of _ "[output_path rt filename \<mapsto>
                  translate_newlines (linesep rt) content]"])
               (simp add: dl_defs split: option.splits)
        qed
      qed
    qed
  qed
qed

lemma download_books_files_delta:
  assumes "\<forall>n. w n = w 0"
  shows "\<exists>m. \<forall>st. files (snd (download_books rt w items st)) = files st ++ m"
proof (induction items)
  case Nil
  show ?case by (intro exI [of _ Map.empty]) simp
next
  case (Cons item items)
  obtain book_id filename where item: "item = (book_id, filename)" by (cases item)
  from Cons.IH obtain m2 where
    m2: "\<And>st. files (snd (download_books rt w items st)) = files st ++ m2" by blast
  from download_files_delta [of w "w 0" rt book_id filename] assms obtain m1 where
    m1: "\<And>st. files (snd (download_gutenberg_book rt w book_id filename st)) = files st ++ m1"
    by metis
  have env: "\<And>st. w (length (calls st)) = w 0" using assms by metis
  have r: "\<And>st. fst (download_gutenberg_book rt w book_id filename st)
              = outcome rt (w 0) book_id filename"
    by (simp add: download_result_outcome env)
  show ?case
  proof (cases "outcome rt (w 0) book_id filename")
    case (Inr p)
    have "\<forall>st. files (snd (download_books rt w (item # items) st)) = files st ++ (m1 ++ m2)"
    proof
      fix st
      from r [of st] Inr have "fst (download_gutenberg_book rt w book_id filename st) = Inr p" by simp
      then show "files (snd (download_books rt w (item # items) st)) = files st ++ (m1 ++ m2)"
        using m1 [of st] m2 [of "snd (download_gutenberg_book rt w book_id filename st)"] item
        by (simp add: case_prod_unfold)
    qed
    then show ?thesis by blast
  next
    case (Inl e)
    let ?line = "''Failed to download '' @ filename @ '': '' @ message e"
    show ?thesis
    proof (cases "isinstance_Exception e \<and> console (w 0) ?line = None")
      case True
      have "\<forall>st. files (snd (download_books rt w (item # items) st)) = files st ++ (m1 ++ m2)"
      proof
        fix st
        let ?d = "download_gutenberg_book rt w book_id filename st"
        from r [of st] Inl have "fst ?d = Inl e" by simp
        then show "files (snd (download_books rt w (item # items) st)) = files st ++ (m1 ++ m2)"
          using m1 [of st] m2 [of "emit ?line (snd ?d)"] item True env [of st]
          by (simp add: case_prod_unfold print_def)
      qed
      then show ?thesis by blast
    next
      case False
      have "\<forall>st. files (snd (download_books rt w (item # items) st)) = files st ++ m1"
      proof
        fix st
        let ?d = "download_gutenberg_book rt w book_id filename st"
        from r [of st] Inl have "fst ?d = Inl e" by simp
        then show "files (snd (download_books rt w (item # items) st)) = files st ++ m1"
          using m1 [of st] item False env [of st]
          by (auto simp add: case_prod_unfold print_def split: option.splits)
      qed
      then show ?thesis by blast
    qed
  qed
qed

lemma download_books_files_idem:
  assumes "\<forall>n. w n = w 0"
  shows "files (snd (download_books rt w items (snd (download_books rt w items st))))
           = files (snd (download_books rt w items st))"
proof -
  from download_books_files_delta [OF assms, of rt items]
  obtain m where m: "\<And>st. files (snd (download_books rt w items st)) = files st ++ m" by blast
  have "m ++ m = m"
    by (rule ext) (simp add: map_add_def split: option.splits)
  with m [of st] m [of "snd (download_books rt w items st)"] show ?thesis
    by (metis map_add_assoc)
qed

subsection \<open>The whole script\<close>

lemma main_books: "books (snd (main rt w st)) = BOOKS"
  by (simp add: main_def Let_def print_def download_all_books_def case_prod_unfold
      download_books_books split: option.splits sum.splits)

lemma main_result:
  assumes "no_interrupts rt w" and "console_ok w"
  shows "main rt w st =
     (Inr (),
      emit (NL # ''Done!'')
        (fold (attempt rt w) BOOKS
          (emit (''Saving to: '' @ OUTPUT_DIR rt @ [NL])
            (emit ''Downloading 10 classic books from Project Gutenberg...''
              (st\<lparr>books := BOOKS\<rparr>)))))"
proof -
  have c: "\<And>n s. console (w n) s = None" using assms(2) by (simp add: console_ok_def)
  show ?thesis
    using str_int_10
    by (simp add: main_def Let_def print_ok [OF c] download_all_books_def
        download_books_fold [OF assms])
qed

lemma main_stdout:
  assumes "no_interrupts rt w" and "console_ok w"
  shows "stdout (snd (main rt w st)) =
       stdout st @ [''Downloading 10 classic books from Project Gutenberg...'',
                    ''Saving to: '' @ OUTPUT_DIR rt @ [NL]]
       @ map (\<lambda>(n, item). report_line rt (w n) item) (enumerate (length (calls st)) BOOKS)
       @ [NL # ''Done!'']"
  by (simp add: main_result [OF assms] fold_attempt_stdout)

lemma outcome_demo:
  "outcome demo_rt (serve chapter_bytes) book_id filename = Inr (''/srv/hearth/data/books/'' @ filename @ ''.txt'')"
  "outcome demo_rt not_found book_id filename = Inl (PyExc HTTPError ''HTTP Error 404: Not Found'')"
  "outcome demo_rt (serve [0x43, 0xFF]) book_id filename =
     Inl (PyExc UnicodeDecodeError invalid_start_at_1)"
  "outcome demo_rt read_only book_id filename =
     Inl (PyExc OSError (''[Errno 13] Permission denied: '' @ [CHR 0x27]
           @ ''/srv/hearth/data/books/'' @ filename @ ''.txt'' @ [CHR 0x27]))"
  "outcome demo_rt disk_full book_id filename = Inl (PyExc OSError ''[Errno 28] No space left on device'')"
  by (simp_all add: outcome_def dl_defs io_defs decode_chapter decode_bad output_path_demo)

text \<open>
  A console that refuses every line: the download itself is done and the file is written,
  the success line fails, the handler catches that, and its own line fails in turn, which
  nothing catches.
\<close>

lemma closed_pipe_escapes:
  "fst (download_books demo_rt (steady closed_pipe) [(2701, ''moby-dick'')] st0)
     = Inl (PyExc OSError ''[Errno 32] Broken pipe'')
   \<and> files (snd (download_books demo_rt (steady closed_pipe) [(2701, ''moby-dick'')] st0))
        ''/srv/hearth/data/books/moby-dick.txt'' = Some (codes ''Chapter 1...'')"
proof -
  have d: "download_gutenberg_book demo_rt (steady closed_pipe) 2701 ''moby-dick'' st0 =
     (Inl (PyExc OSError ''[Errno 32] Broken pipe''),
      st0\<lparr>files := (files st0)(output_path demo_rt ''moby-dick'' \<mapsto>
                  translate_newlines (linesep demo_rt) (codes ''Chapter 1...'')),
         requests := requests st0 @ [book_request 2701],
         calls := calls st0 @ [(2701, ''moby-dick'')]\<rparr>)"
    by (rule download_print_failure_state [where body = chapter_bytes])
       (simp_all add: closed_pipe_def decode_chapter)
  show ?thesis
    by (simp add: d print_def output_path_demo) (simp add: closed_pipe_def)
qed

subsection \<open>The claims\<close>

text \<open>
  Claim C1. \<^verbatim>\<open>download_all_books\<close> never raises: for every list of items, every starting
  state and every pattern of successes and failures of the items (every world whose
  failures are errors, that is instances of \<^verbatim>\<open>Exception\<close>), and with a console that takes
  every line, the loop returns normally, and what it has done is exactly one pass of the
  loop body over every item, in list order: the call of \<^verbatim>\<open>download_gutenberg_book\<close> with
  all its effects on the files, the console and the network, followed by the handler's
  line when the call raised. So every item is called once, with one request, and leaves
  one line on the console that tells how its own call ended; a failure of one item never
  keeps a later item from being attempted. \<^verbatim>\<open>download_all_books\<close> is this loop over the
  table \<^verbatim>\<open>BOOKS\<close>.
\<close>
theorem download_all_never_raises:
  assumes "no_interrupts rt w" and "console_ok w"
  shows "fst (download_books rt w items st) = Inr ()
       \<and> snd (download_books rt w items st) = fold (attempt rt w) items st
       \<and> calls (snd (download_books rt w items st)) = calls st @ items
       \<and> requests (snd (download_books rt w items st)) =
           requests st @ map (\<lambda>item. book_request (fst item)) items
       \<and> stdout (snd (download_books rt w items st)) =
           stdout st @ map (\<lambda>(n, item). report_line rt (w n) item)
                         (enumerate (length (calls st)) items)
       \<and> download_all_books rt w st = (Inr (), fold (attempt rt w) (books st) st)"
  by (simp add: download_books_fold [OF assms] download_all_books_def
      fold_attempt_log fold_attempt_stdout)

theorem download_all_never_raises_witness:
  "no_interrupts demo_rt demo_world \<and> console_ok demo_world
   \<and> fst (download_books demo_rt demo_world
            [(1342, ''pride-and-prejudice''), (9999, ''missing''), (84, ''frankenstein'')] st0) = Inr ()
   \<and> calls (snd (download_books demo_rt demo_world
            [(1342, ''pride-and-prejudice''), (9999, ''missing''), (84, ''frankenstein'')] st0))
       = [(1342, ''pride-and-prejudice''), (9999, ''missing''), (84, ''frankenstein'')]
   \<and> stdout (snd (download_books demo_rt demo_world
            [(1342, ''pride-and-prejudice''), (9999, ''missing''), (84, ''frankenstein'')] st0))
       = [''Downloaded: pride-and-prejudice.txt'',
          ''Failed to download missing: HTTP Error 404: Not Found'',
          ''Failed to download frankenstein: '' @ invalid_start_at_1]"
proof -
  let ?items = "[(1342, ''pride-and-prejudice''), (9999, ''missing''), (84, ''frankenstein'')]"
  have l: "map (\<lambda>(n, item). report_line demo_rt (demo_world n) item)
             (enumerate (length (calls st0)) ?items)
       = [''Downloaded: pride-and-prejudice.txt'',
          ''Failed to download missing: HTTP Error 404: Not Found'',
          ''Failed to download frankenstein: '' @ invalid_start_at_1]"
    by (simp add: demo_world_def report_line_def outcome_demo)
  have r: "fst (download_books demo_rt demo_world ?items st0) = Inr ()"
    and c: "calls (snd (download_books demo_rt demo_world ?items st0)) = calls st0 @ ?items"
    and s: "stdout (snd (download_books demo_rt demo_world ?items st0)) =
           stdout st0 @ map (\<lambda>(n, item). report_line demo_rt (demo_world n) item)
                         (enumerate (length (calls st0)) ?items)"
    using download_all_never_raises [OF no_interrupts_demo console_ok_demo, of ?items st0]
    by blast+
  show ?thesis
    unfolding s l c using r no_interrupts_demo console_ok_demo by simp
qed

text \<open>
  Claim C2, as stated, does not hold. On a platform whose line separator is a carriage
  return and a line feed, a body that decodes to the line \<^verbatim>\<open>Chapter 1\<close> ended by a
  carriage return and a line feed is stored with two carriage returns before the line
  feed: the call succeeds and returns the path, and the file does not hold the decoded
  body.
\<close>
theorem verbatim_content_counterexample:
  "decode_utf8 windows_rt line_bytes = Inr (codes ''Chapter 1'' @ [13, 10])
   \<and> fst (download_gutenberg_book windows_rt (steady (serve line_bytes)) 1342
            ''pride-and-prejudice'' st0)
       = Inr (''C:'' @ [backslash] @ ''hearth'' @ [backslash] @ ''data'' @ [backslash] @ ''books''
               @ [backslash] @ ''pride-and-prejudice.txt'')
   \<and> files (snd (download_gutenberg_book windows_rt (steady (serve line_bytes)) 1342
            ''pride-and-prejudice'' st0))
         (''C:'' @ [backslash] @ ''hearth'' @ [backslash] @ ''data'' @ [backslash] @ ''books''
               @ [backslash] @ ''pride-and-prejudice.txt'')
       = Some (codes ''Chapter 1'' @ [13, 13, 10])
   \<and> codes ''Chapter 1'' @ [13, 13, 10] \<noteq> codes ''Chapter 1'' @ [13, 10]"
proof -
  have p: "output_path windows_rt ''pride-and-prejudice''
      = ''C:'' @ [backslash] @ ''hearth'' @ [backslash] @ ''data'' @ [backslash] @ ''books''
               @ [backslash] @ ''pride-and-prejudice.txt''"
    by (simp add: output_path_def output_dir_windows) (simp add: windows_rt_def)
  have t: "translate_newlines [13, 10] (codes ''Chapter 1'' @ [13, 10]) = codes ''Chapter 1'' @ [13, 13, 10]"
    by (simp add: translate_newlines_def codes_def)
  have d: "download_gutenberg_book windows_rt (steady (serve line_bytes)) 1342 ''pride-and-prejudice'' st0 =
     (Inr (output_path windows_rt ''pride-and-prejudice''),
      st0\<lparr>files := (files st0)(output_path windows_rt ''pride-and-prejudice'' \<mapsto>
                  translate_newlines (linesep windows_rt) (codes ''Chapter 1'' @ [13, 10])),
         stdout := stdout st0 @ [''Downloaded: '' @ ''pride-and-prejudice'' @ ''.txt''],
         requests := requests st0 @ [book_request 1342],
         calls := calls st0 @ [(1342, ''pride-and-prejudice'')]\<rparr>)"
    by (rule download_success_state [where body = line_bytes])
       (simp_all add: serve_def decode_line)
  show ?thesis
    unfolding d by (simp add: decode_line p t)
qed

text \<open>
  Claim C2, amended. When the resource is reachable and its body decodes as UTF-8, and
  the output file can be opened and written, the file at
  \<^verbatim>\<open>OUTPUT_DIR / f"{filename}.txt"\<close>, where \<^verbatim>\<open>OUTPUT_DIR\<close> is the parent directory of the
  script file, afterwards holds the decoded body with every line feed written as the
  platform's line separator, whatever it held or did not hold before. That is the decoded
  body itself where the separator is a line feed, or where the body has no line feed. The
  call returns that path once its line \<^verbatim>\<open>Downloaded: {filename}.txt\<close> is printed.
\<close>
theorem download_writes_translated_body:
  assumes "urlopen (w (length (calls st))) (book_request book_id) = Inr (Inr body)"
    and "decode_utf8 rt body = Inr content"
    and "open_w (w (length (calls st))) (joinpath rt (parent rt (script_file rt)) (filename @ ''.txt'')) = None"
    and "fwrite (w (length (calls st))) (joinpath rt (parent rt (script_file rt)) (filename @ ''.txt'')) content = None"
  shows "files (snd (download_gutenberg_book rt w book_id filename st))
           (joinpath rt (parent rt (script_file rt)) (filename @ ''.txt''))
           = Some (translate_newlines (linesep rt) content)
       \<and> (linesep rt = [10] \<or> 10 \<notin> set content \<longrightarrow>
            files (snd (download_gutenberg_book rt w book_id filename st))
              (joinpath rt (parent rt (script_file rt)) (filename @ ''.txt'')) = Some content)
       \<and> (console (w (length (calls st))) (''Downloaded: '' @ filename @ ''.txt'') = None \<longrightarrow>
            fst (download_gutenberg_book rt w book_id filename st) =
              Inr (joinpath rt (parent rt (script_file rt)) (filename @ ''.txt'')))"
proof -
  have p: "output_path rt filename = joinpath rt (parent rt (script_file rt)) (filename @ ''.txt'')"
    by (simp add: output_path_def OUTPUT_DIR_def)
  have f: "files (snd (download_gutenberg_book rt w book_id filename st)) (output_path rt filename)
       = Some (translate_newlines (linesep rt) content)"
    using assms by (simp add: dl_defs p split: option.splits)
  have v: "linesep rt = [10] \<or> 10 \<notin> set content \<longrightarrow>
       translate_newlines (linesep rt) content = content"
    by (auto simp add: translate_newlines_none)
  have r: "console (w (length (calls st))) (''Downloaded: '' @ filename @ ''.txt'') = None \<longrightarrow>
       fst (download_gutenberg_book rt w book_id filename st) = Inr (output_path rt filename)"
    using assms by (simp add: dl_defs p)
  from f v r show ?thesis unfolding p by simp
qed

theorem download_writes_translated_body_witness:
  "fst (download_gutenberg_book demo_rt demo_world 1342 ''pride-and-prejudice'' st0) =
     Inr ''/srv/hearth/data/books/pride-and-prejudice.txt''
   \<and> files (snd (download_gutenberg_book demo_rt demo_world 1342 ''pride-and-prejudice'' st0))
       ''/srv/hearth/data/books/pride-and-prejudice.txt'' = Some (codes ''Chapter 1...'')"
proof -
  let ?p = "joinpath demo_rt (parent demo_rt (script_file demo_rt)) (''pride-and-prejudice'' @ ''.txt'')"
  have p: "?p = ''/srv/hearth/data/books/pride-and-prejudice.txt''"
    using output_path_demo [of "''pride-and-prejudice''"] by (simp add: output_path_def OUTPUT_DIR_def)
  have h1: "urlopen (demo_world (length (calls st0))) (book_request 1342) = Inr (Inr chapter_bytes)"
    by (simp add: demo_world_def serve_def)
  have h2: "decode_utf8 demo_rt chapter_bytes = Inr (codes ''Chapter 1...'')"
    by (simp add: decode_chapter)
  have h3: "open_w (demo_world (length (calls st0))) ?p = None"
    by (simp add: demo_world_def serve_def)
  have h4: "fwrite (demo_world (length (calls st0))) ?p (codes ''Chapter 1...'') = None"
    by (simp add: demo_world_def serve_def)
  have h5: "console (demo_world (length (calls st0))) (''Downloaded: '' @ ''pride-and-prejudice'' @ ''.txt'') = None"
    by (simp add: demo_world_def serve_def)
  have h6: "linesep demo_rt = [10]" by simp
  note inst = download_writes_translated_body [where w = demo_world and st = st0 and book_id = 1342
      and body = chapter_bytes and rt = demo_rt and content = "codes ''Chapter 1...''"
      and filename = "''pride-and-prejudice''", OF h1 h2 h3 h4]
  from inst h6 have "files (snd (download_gutenberg_book demo_rt demo_world 1342 ''pride-and-prejudice'' st0)) ?p
      = Some (codes ''Chapter 1...'')"
    by blast
  moreover from inst h5 have "fst (download_gutenberg_book demo_rt demo_world 1342 ''pride-and-prejudice'' st0)
      = Inr ?p"
    by blast
  ultimately show ?thesis unfolding p by simp
qed

text \<open>
  Claim C3. The failure of an item is one kind of event, whatever its cause: when
  \<^verbatim>\<open>urlopen\<close> raises (a network error, a status that is not a success), or reading the
  body, or decoding it, or opening or writing the file, and what is raised is an instance
  of \<^verbatim>\<open>Exception\<close>, then \<^verbatim>\<open>download_gutenberg_book\<close> raises that very exception, and the
  one handler at the boundary of the item catches it, reports it as
  \<^verbatim>\<open>Failed to download {filename}: {e}\<close>, which names the item and gives the cause, and
  goes on with the rest of the list.
\<close>
theorem fetch_failure_caught_and_reported:
  assumes "urlopen (w (length (calls st))) (book_request book_id) = Inl e
     \<or> urlopen (w (length (calls st))) (book_request book_id) = Inr (Inl e)
     \<or> (\<exists>body. urlopen (w (length (calls st))) (book_request book_id) = Inr (Inr body)
          \<and> (decode_utf8 rt body = Inl e
             \<or> (\<exists>content. decode_utf8 rt body = Inr content
                  \<and> (open_w (w (length (calls st))) (output_path rt filename) = Some e
                     \<or> (open_w (w (length (calls st))) (output_path rt filename) = None
                        \<and> (\<exists>k. fwrite (w (length (calls st))) (output_path rt filename) content
                                   = Some (e, k)))))))"
    and "isinstance_Exception e"
    and "console (w (length (calls st))) (''Failed to download '' @ filename @ '': '' @ message e) = None"
  shows "fst (download_gutenberg_book rt w book_id filename st) = Inl e
       \<and> download_books rt w ((book_id, filename) # rest) st =
           download_books rt w rest
             (emit (''Failed to download '' @ filename @ '': '' @ message e)
                (snd (download_gutenberg_book rt w book_id filename st)))"
proof -
  have f: "fst (download_gutenberg_book rt w book_id filename st) = Inl e"
    using assms(1) unfolding download_raises_cases Let_def by blast
  then show ?thesis
    using assms(2,3) by (simp add: case_prod_unfold print_def)
qed

theorem fetch_failure_caught_and_reported_witness:
  "stdout (snd (download_books demo_rt (steady not_found) [(9999, ''missing'')] st0))
     = [''Failed to download missing: HTTP Error 404: Not Found'']
   \<and> stdout (snd (download_books demo_rt (steady (serve [0x43, 0xFF])) [(84, ''frankenstein'')] st0))
     = [''Failed to download frankenstein: '' @ invalid_start_at_1]"
proof -
  let ?e = "PyExc HTTPError ''HTTP Error 404: Not Found''"
  let ?d = "download_gutenberg_book demo_rt (steady not_found) 9999 ''missing'' st0"
  have "urlopen (steady not_found (length (calls st0))) (book_request 9999) = Inl ?e"
    by (simp add: not_found_def)
  moreover have "isinstance_Exception ?e" by simp
  moreover have "console (steady not_found (length (calls st0)))
      (''Failed to download '' @ ''missing'' @ '': '' @ message ?e) = None"
    by (simp add: not_found_def)
  ultimately have a: "fst ?d = Inl ?e
       \<and> download_books demo_rt (steady not_found) ((9999, ''missing'') # []) st0 =
           download_books demo_rt (steady not_found) []
             (emit (''Failed to download '' @ ''missing'' @ '': '' @ message ?e) (snd ?d))"
    using fetch_failure_caught_and_reported [where w = "steady not_found" and st = st0
        and book_id = 9999 and e = ?e and rt = demo_rt and filename = "''missing''" and rest = "[]"]
    by blast
  have sa: "stdout (snd ?d) = []"
    using download_stdout [of demo_rt "steady not_found" 9999 "''missing''" st0] a by simp
  let ?e2 = "PyExc UnicodeDecodeError invalid_start_at_1"
  let ?w2 = "steady (serve [0x43, 0xFF])"
  let ?d2 = "download_gutenberg_book demo_rt ?w2 84 ''frankenstein'' st0"
  have "\<exists>body. urlopen (?w2 (length (calls st0))) (book_request 84) = Inr (Inr body)
          \<and> decode_utf8 demo_rt body = Inl ?e2"
    by (simp add: serve_def decode_bad)
  moreover have "isinstance_Exception ?e2" by simp
  moreover have "console (?w2 (length (calls st0)))
      (''Failed to download '' @ ''frankenstein'' @ '': '' @ message ?e2) = None"
    by (simp add: serve_def)
  ultimately have b: "fst ?d2 = Inl ?e2
       \<and> download_books demo_rt ?w2 ((84, ''frankenstein'') # []) st0 =
           download_books demo_rt ?w2 []
             (emit (''Failed to download '' @ ''frankenstein'' @ '': '' @ message ?e2) (snd ?d2))"
    using fetch_failure_caught_and_reported [where w = ?w2 and st = st0
        and book_id = 84 and e = ?e2 and rt = demo_rt and filename = "''frankenstein''" and rest = "[]"]
    by blast
  have sb: "stdout (snd ?d2) = []"
    using download_stdout [of demo_rt ?w2 84 "''frankenstein''" st0] b by simp
  from a have "stdout (snd (download_books demo_rt (steady not_found) [(9999, ''missing'')] st0))
      = stdout (snd ?d) @ [''Failed to download '' @ ''missing'' @ '': '' @ message ?e]"
    by (simp del: download_books.simps(2))
  moreover from b have "stdout (snd (download_books demo_rt ?w2 [(84, ''frankenstein'')] st0))
      = stdout (snd ?d2) @ [''Failed to download '' @ ''frankenstein'' @ '': '' @ message ?e2]"
    by (simp del: download_books.simps(2))
  ultimately show ?thesis unfolding sa sb by simp
qed

text \<open>
  Claim C4. Every call of \<^verbatim>\<open>download_gutenberg_book\<close>, whatever its outcome, hands exactly
  one request to \<^verbatim>\<open>urlopen\<close>: a GET for
  \<^verbatim>\<open>https://www.gutenberg.org/cache/epub/{id}/pg{id}.txt\<close> with the decimal rendering of
  \<open>book_id\<close> in both places, carrying a \<^verbatim>\<open>User-Agent\<close> header.
\<close>
theorem download_issues_one_get:
  "\<exists>r. requests (snd (download_gutenberg_book rt w book_id filename st)) = requests st @ [r]
       \<and> url r = ''https://www.gutenberg.org/cache/epub/'' @ str_int book_id @ ''/pg'' @ str_int book_id @ ''.txt''
       \<and> get_method r = ''GET''
       \<and> headers r = [(''User-Agent'', ''Python-urllib/3.x'')]"
  using download_gutenberg_book_log [of rt w book_id filename st]
  by (simp add: book_request_def book_url_def get_method_def)

text \<open>
  Claim C5. Running the loop a second time on the same items is again one pass of the
  loop body over every item, in the same order, with one call and one request each.
  Nothing is skipped because a file is already there: what the loop returns, prints,
  requests and calls does not depend on the files it finds; and when a run starts with an
  output file in place, with any content, and the download of its item succeeds in this
  run, the run leaves the text downloaded in this run in that file (no later item of the
  list writing the same file). When the world answers the same way at every call, the
  second run leaves the files exactly as the first run left them.
\<close>
theorem rerun_attempts_all_and_overwrites:
  assumes "no_interrupts rt w" and "console_ok w"
  shows "download_books rt w items (snd (download_books rt w items st))
           = (Inr (), fold (attempt rt w) items (snd (download_books rt w items st)))
   \<and> calls (snd (download_books rt w items (snd (download_books rt w items st))))
       = calls st @ items @ items
   \<and> requests (snd (download_books rt w items (snd (download_books rt w items st))))
       = requests st @ map (\<lambda>item. book_request (fst item)) (items @ items)
   \<and> (\<forall>a b. same_but_files a b \<longrightarrow>
          fst (download_books rt w items a) = fst (download_books rt w items b)
        \<and> same_but_files (snd (download_books rt w items a)) (snd (download_books rt w items b)))
   \<and> (\<forall>s pre book_id filename post old body content.
          items = pre @ (book_id, filename) # post
        \<and> files s (output_path rt filename) = Some old
        \<and> urlopen (w (length (calls s) + length pre)) (book_request book_id) = Inr (Inr body)
        \<and> decode_utf8 rt body = Inr content
        \<and> open_w (w (length (calls s) + length pre)) (output_path rt filename) = None
        \<and> fwrite (w (length (calls s) + length pre)) (output_path rt filename) content = None
        \<and> (\<forall>item \<in> set post. output_path rt (snd item) \<noteq> output_path rt filename)
        \<longrightarrow> files (snd (download_books rt w items s)) (output_path rt filename)
              = Some (translate_newlines (linesep rt) content))
   \<and> ((\<forall>n. w n = w 0) \<longrightarrow>
        files (snd (download_books rt w items (snd (download_books rt w items st))))
          = files (snd (download_books rt w items st)))"
proof -
  let ?st1 = "snd (download_books rt w items st)"
  note run = download_books_fold [OF assms]
  have traversal: "download_books rt w items ?st1 = (Inr (), fold (attempt rt w) items ?st1)
    \<and> calls (snd (download_books rt w items ?st1)) = calls st @ items @ items
    \<and> requests (snd (download_books rt w items ?st1))
         = requests st @ map (\<lambda>item. book_request (fst item)) (items @ items)"
    by (simp add: run fold_attempt_log)
  have blind: "\<forall>a b. same_but_files a b \<longrightarrow>
          fst (download_books rt w items a) = fst (download_books rt w items b)
        \<and> same_but_files (snd (download_books rt w items a)) (snd (download_books rt w items b))"
    using download_books_same_but_files by blast
  have overwrite: "\<forall>s pre book_id filename post old body content.
          items = pre @ (book_id, filename) # post
        \<and> files s (output_path rt filename) = Some old
        \<and> urlopen (w (length (calls s) + length pre)) (book_request book_id) = Inr (Inr body)
        \<and> decode_utf8 rt body = Inr content
        \<and> open_w (w (length (calls s) + length pre)) (output_path rt filename) = None
        \<and> fwrite (w (length (calls s) + length pre)) (output_path rt filename) content = None
        \<and> (\<forall>item \<in> set post. output_path rt (snd item) \<noteq> output_path rt filename)
        \<longrightarrow> files (snd (download_books rt w items s)) (output_path rt filename)
              = Some (translate_newlines (linesep rt) content)"
  proof (intro allI impI)
    fix s :: state and pre book_id filename post old body content
    assume h: "items = pre @ (book_id, filename) # post
        \<and> files s (output_path rt filename) = Some old
        \<and> urlopen (w (length (calls s) + length pre)) (book_request book_id) = Inr (Inr body)
        \<and> decode_utf8 rt body = Inr content
        \<and> open_w (w (length (calls s) + length pre)) (output_path rt filename) = None
        \<and> fwrite (w (length (calls s) + length pre)) (output_path rt filename) content = None
        \<and> (\<forall>item \<in> set post. output_path rt (snd item) \<noteq> output_path rt filename)"
    let ?p = "output_path rt filename"
    let ?s1 = "fold (attempt rt w) pre s"
    have len: "length (calls ?s1) = length (calls s) + length pre"
      by (simp add: fold_attempt_log)
    have c: "console (w (length (calls ?s1))) (''Downloaded: '' @ filename @ ''.txt'') = None"
      using assms(2) by (simp add: console_ok_def)
    have d: "download_gutenberg_book rt w book_id filename ?s1 =
       (Inr ?p,
        ?s1\<lparr>files := (files ?s1)(?p \<mapsto> translate_newlines (linesep rt) content),
            stdout := stdout ?s1 @ [''Downloaded: '' @ filename @ ''.txt''],
            requests := requests ?s1 @ [book_request book_id],
            calls := calls ?s1 @ [(book_id, filename)]\<rparr>)"
      using h c by (intro download_success_state [where body = body]) (simp_all add: len)
    have "files (attempt rt w (book_id, filename) ?s1) ?p
            = Some (translate_newlines (linesep rt) content)"
      by (simp add: attempt_def d)
    moreover have "files (fold (attempt rt w) post (attempt rt w (book_id, filename) ?s1)) ?p
            = files (attempt rt w (book_id, filename) ?s1) ?p"
      using h by (intro fold_attempt_frame) simp
    ultimately show "files (snd (download_books rt w items s)) ?p
              = Some (translate_newlines (linesep rt) content)"
      using h by (simp add: run)
  qed
  have steady: "(\<forall>n. w n = w 0) \<longrightarrow>
        files (snd (download_books rt w items ?st1)) = files ?st1"
    using download_books_files_idem [of w rt items st] by blast
  from traversal blind overwrite steady show ?thesis by blast
qed

theorem rerun_attempts_all_and_overwrites_witness:
  "no_interrupts demo_rt changing_world \<and> console_ok changing_world
   \<and> files (snd (download_books demo_rt changing_world [(2701, ''moby-dick'')] st0))
        ''/srv/hearth/data/books/moby-dick.txt'' = Some (codes ''Chapter 1...'')
   \<and> files (snd (download_books demo_rt changing_world [(2701, ''moby-dick'')]
              (snd (download_books demo_rt changing_world [(2701, ''moby-dick'')] st0))))
        ''/srv/hearth/data/books/moby-dick.txt'' = Some (codes ''Chapter 1'' @ [13, 10])
   \<and> calls (snd (download_books demo_rt changing_world [(2701, ''moby-dick'')]
              (snd (download_books demo_rt changing_world [(2701, ''moby-dick'')] st0))))
       = [(2701, ''moby-dick''), (2701, ''moby-dick'')]"
proof -
  let ?w = changing_world
  let ?items = "[(2701, ''moby-dick'')]"
  let ?p = "output_path demo_rt ''moby-dick''"
  let ?st1 = "snd (download_books demo_rt ?w ?items st0)"
  note inst = rerun_attempts_all_and_overwrites [OF no_interrupts_changing console_ok_changing,
      of ?items st0]
  have p: "?p = ''/srv/hearth/data/books/moby-dick.txt''"
    by (simp add: output_path_demo)
  have d0: "download_gutenberg_book demo_rt ?w 2701 ''moby-dick'' st0 =
     (Inr ?p,
      st0\<lparr>files := (files st0)(?p \<mapsto> translate_newlines (linesep demo_rt) (codes ''Chapter 1...'')),
         stdout := stdout st0 @ [''Downloaded: '' @ ''moby-dick'' @ ''.txt''],
         requests := requests st0 @ [book_request 2701],
         calls := calls st0 @ [(2701, ''moby-dick'')]\<rparr>)"
    by (rule download_success_state [where body = chapter_bytes])
       (simp_all add: changing_world_def serve_def decode_chapter)
  have st1: "?st1 = st0\<lparr>files := [?p \<mapsto> codes ''Chapter 1...''],
         stdout := [''Downloaded: moby-dick.txt''],
         requests := [book_request 2701],
         calls := [(2701, ''moby-dick'')]\<rparr>"
    by (simp add: d0)
  have first: "files ?st1 ?p = Some (codes ''Chapter 1...'')"
    unfolding st1 by simp
  have hyp: "?items = [] @ (2701, ''moby-dick'') # []
        \<and> files ?st1 ?p = Some (codes ''Chapter 1...'')
        \<and> urlopen (?w (length (calls ?st1) + length ([] :: (int \<times> str) list))) (book_request 2701)
            = Inr (Inr line_bytes)
        \<and> decode_utf8 demo_rt line_bytes = Inr (codes ''Chapter 1'' @ [13, 10])
        \<and> open_w (?w (length (calls ?st1) + length ([] :: (int \<times> str) list))) ?p = None
        \<and> fwrite (?w (length (calls ?st1) + length ([] :: (int \<times> str) list))) ?p
             (codes ''Chapter 1'' @ [13, 10]) = None
        \<and> (\<forall>item \<in> set ([] :: (int \<times> str) list). output_path demo_rt (snd item) \<noteq> ?p)"
    unfolding st1 by (simp add: changing_world_def serve_def decode_line first [unfolded st1])
  from inst hyp have "files (snd (download_books demo_rt ?w ?items ?st1)) ?p
      = Some (translate_newlines (linesep demo_rt) (codes ''Chapter 1'' @ [13, 10]))"
    by blast
  then have second: "files (snd (download_books demo_rt ?w ?items ?st1)) ?p
      = Some (codes ''Chapter 1'' @ [13, 10])"
    by simp
  from inst have twice: "calls (snd (download_books demo_rt ?w ?items ?st1)) = calls st0 @ ?items @ ?items"
    by blast
  have c: "calls st0 @ ?items @ ?items = [(2701, ''moby-dick''), (2701, ''moby-dick'')]"
    by simp
  show ?thesis
    using no_interrupts_changing console_ok_changing first second twice [unfolded c]
    unfolding p by blast
qed

text \<open>
  Claim C6. A successful call of \<^verbatim>\<open>download_gutenberg_book\<close> writes exactly one file, the
  one at \<^verbatim>\<open>OUTPUT_DIR / f"{filename}.txt"\<close>, which is also the path it returns; every
  other file is as it was.
\<close>
theorem download_success_frame:
  assumes "fst (download_gutenberg_book rt w book_id filename st) = Inr p"
  shows "p = joinpath rt (OUTPUT_DIR rt) (filename @ ''.txt'')
       \<and> (\<exists>content. files (snd (download_gutenberg_book rt w book_id filename st)) = (files st)(p \<mapsto> content))
       \<and> (\<forall>q. q \<noteq> p \<longrightarrow> files (snd (download_gutenberg_book rt w book_id filename st)) q = files st q)"
proof -
  from assms obtain body content where
    p: "p = output_path rt filename" and
    h: "urlopen (w (length (calls st))) (book_request book_id) = Inr (Inr body)"
       "decode_utf8 rt body = Inr content"
       "open_w (w (length (calls st))) (output_path rt filename) = None"
       "fwrite (w (length (calls st))) (output_path rt filename) content = None"
       "console (w (length (calls st))) (''Downloaded: '' @ filename @ ''.txt'') = None"
    unfolding download_success_cases Let_def by blast
  from download_success_state [where w = w and st = st and book_id = book_id and body = body
      and rt = rt and content = content and filename = filename] h p
  show ?thesis
    by (auto simp add: output_path_def)
qed

theorem download_success_frame_witness:
  "fst (download_gutenberg_book demo_rt demo_world 1342 ''pride-and-prejudice''
          (st0\<lparr>files := [''/etc/hosts'' \<mapsto> codes ''localhost'']\<rparr>))
     = Inr ''/srv/hearth/data/books/pride-and-prejudice.txt''
   \<and> files (snd (download_gutenberg_book demo_rt demo_world 1342 ''pride-and-prejudice''
          (st0\<lparr>files := [''/etc/hosts'' \<mapsto> codes ''localhost'']\<rparr>))) ''/etc/hosts''
     = Some (codes ''localhost'')"
proof -
  let ?st = "st0\<lparr>files := [''/etc/hosts'' \<mapsto> codes ''localhost'']\<rparr>"
  have ok: "fst (download_gutenberg_book demo_rt demo_world 1342 ''pride-and-prejudice'' ?st)
              = Inr ''/srv/hearth/data/books/pride-and-prejudice.txt''"
    using download_success_state [of demo_world ?st 1342 chapter_bytes demo_rt
        "codes ''Chapter 1...''" "''pride-and-prejudice''"]
    by (simp add: demo_world_def serve_def decode_chapter output_path_demo)
  have "\<forall>q. q \<noteq> ''/srv/hearth/data/books/pride-and-prejudice.txt'' \<longrightarrow>
          files (snd (download_gutenberg_book demo_rt demo_world 1342 ''pride-and-prejudice'' ?st)) q
            = files ?st q"
    using download_success_frame [OF ok] by blast
  then have "files (snd (download_gutenberg_book demo_rt demo_world 1342 ''pride-and-prejudice'' ?st))
               ''/etc/hosts'' = files ?st ''/etc/hosts''"
    by simp
  with ok show ?thesis by simp
qed

text \<open>
  Claim C7. For every pattern of per-item successes and failures (every world whose
  failures are instances of \<^verbatim>\<open>Exception\<close>), on a console that takes every line, the
  script returns normally and the console shows, in this order: the two lines announcing
  the batch and the output directory; for every item of \<^verbatim>\<open>BOOKS\<close>, in order, exactly one
  line, \<^verbatim>\<open>Downloaded: {filename}.txt\<close> when that item's download succeeded and
  \<^verbatim>\<open>Failed to download {filename}: {e}\<close> when it raised \<open>e\<close>; and last \<^verbatim>\<open>Done!\<close>.
\<close>
theorem console_output:
  assumes "no_interrupts rt w" and "console_ok w"
  shows "fst (main rt w st) = Inr ()
   \<and> stdout (snd (main rt w st)) =
       stdout st @ [''Downloading 10 classic books from Project Gutenberg...'',
                    ''Saving to: '' @ OUTPUT_DIR rt @ [NL]]
       @ map (\<lambda>(n, item). report_line rt (w n) item) (enumerate (length (calls st)) BOOKS)
       @ [NL # ''Done!'']
   \<and> (\<forall>env book_id filename.
        report_line rt env (book_id, filename) =
          (case outcome rt env book_id filename of
             Inr p \<Rightarrow> ''Downloaded: '' @ filename @ ''.txt''
           | Inl e \<Rightarrow> ''Failed to download '' @ filename @ '': '' @ message e))
   \<and> (\<forall>book_id filename s.
        fst (download_gutenberg_book rt w book_id filename s) =
          outcome rt (w (length (calls s))) book_id filename)"
proof -
  have "\<forall>env book_id filename.
        report_line rt env (book_id, filename) =
          (case outcome rt env book_id filename of
             Inr p \<Rightarrow> ''Downloaded: '' @ filename @ ''.txt''
           | Inl e \<Rightarrow> ''Failed to download '' @ filename @ '': '' @ message e)"
    by (simp add: report_line_def split: sum.splits)
  moreover have "\<forall>book_id filename s.
        fst (download_gutenberg_book rt w book_id filename s) =
          outcome rt (w (length (calls s))) book_id filename"
    by (simp add: download_result_outcome)
  moreover have "fst (main rt w st) = Inr ()"
    by (simp add: main_result [OF assms])
  ultimately show ?thesis
    using main_stdout [OF assms, of st] by blast
qed

theorem console_output_witness:
  "no_interrupts demo_rt demo_world \<and> console_ok demo_world
   \<and> fst (main demo_rt demo_world st0) = Inr ()
   \<and> stdout (snd (main demo_rt demo_world st0)) =
      [''Downloading 10 classic books from Project Gutenberg...'',
       ''Saving to: /srv/hearth/data/books'' @ [NL],
       ''Downloaded: pride-and-prejudice.txt'',
       ''Failed to download moby-dick: HTTP Error 404: Not Found'',
       ''Failed to download frankenstein: '' @ invalid_start_at_1,
       ''Failed to download adventures-of-huckleberry-finn: [Errno 13] Permission denied: ''
         @ [CHR 0x27] @ ''/srv/hearth/data/books/adventures-of-huckleberry-finn.txt'' @ [CHR 0x27],
       ''Failed to download adventures-of-sherlock-holmes: [Errno 28] No space left on device'',
       ''Downloaded: great-expectations.txt'',
       ''Downloaded: war-and-peace.txt'',
       ''Downloaded: crime-and-punishment.txt'',
       ''Downloaded: heart-of-darkness.txt'',
       ''Downloaded: gullivers-travels.txt'',
       NL # ''Done!'']"
proof -
  have l: "map (\<lambda>(n, item). report_line demo_rt (demo_world n) item) (enumerate (length (calls st0)) BOOKS)
    = [''Downloaded: pride-and-prejudice.txt'',
       ''Failed to download moby-dick: HTTP Error 404: Not Found'',
       ''Failed to download frankenstein: '' @ invalid_start_at_1,
       ''Failed to download adventures-of-huckleberry-finn: [Errno 13] Permission denied: ''
         @ [CHR 0x27] @ ''/srv/hearth/data/books/adventures-of-huckleberry-finn.txt'' @ [CHR 0x27],
       ''Failed to download adventures-of-sherlock-holmes: [Errno 28] No space left on device'',
       ''Downloaded: great-expectations.txt'',
       ''Downloaded: war-and-peace.txt'',
       ''Downloaded: crime-and-punishment.txt'',
       ''Downloaded: heart-of-darkness.txt'',
       ''Downloaded: gullivers-travels.txt'']"
    by (simp add: BOOKS_def enumerate_eq_zip upt_rec demo_world_def report_line_def outcome_demo)
  have r: "fst (main demo_rt demo_world st0) = Inr ()"
    and s: "stdout (snd (main demo_rt demo_world st0)) =
       stdout st0 @ [''Downloading 10 classic books from Project Gutenberg...'',
                    ''Saving to: '' @ OUTPUT_DIR demo_rt @ [NL]]
       @ map (\<lambda>(n, item). report_line demo_rt (demo_world n) item) (enumerate (length (calls st0)) BOOKS)
       @ [NL # ''Done!'']"
    using console_output [OF no_interrupts_demo console_ok_demo, of st0] by blast+
  show ?thesis
    unfolding s l using r no_interrupts_demo console_ok_demo by (simp add: output_dir_demo)
qed

text \<open>
  Claim C8. The table \<open>BOOKS\<close> has ten pairs, without repetition; every id is positive
  and every name is non-empty. Nothing changes the module's global once it is assigned:
  no call of \<^verbatim>\<open>download_gutenberg_book\<close>, of the loop or of \<^verbatim>\<open>download_all_books\<close>
  changes it, and after a run of the script, however the run ends, it holds the table.
  A run that is not cut short consumes each item of the table exactly once, in order:
  between the announcing lines and \<^verbatim>\<open>Done!\<close> it is one pass of the loop body over
  every item of \<open>BOOKS\<close>, with one call and one request each.
\<close>
theorem books_table:
  "length BOOKS = 10
   \<and> distinct BOOKS
   \<and> (\<forall>(source_id, output_name) \<in> set BOOKS. 0 < source_id \<and> output_name \<noteq> [])
   \<and> books (snd (download_gutenberg_book rt w book_id filename s)) = books s
   \<and> books (snd (download_books rt w items s)) = books s
   \<and> books (snd (download_all_books rt w s)) = books s
   \<and> books (snd (main rt w st)) = BOOKS
   \<and> (no_interrupts rt w \<and> console_ok w \<longrightarrow>
        main rt w st =
          (Inr (),
           emit (NL # ''Done!'')
             (fold (attempt rt w) BOOKS
               (emit (''Saving to: '' @ OUTPUT_DIR rt @ [NL])
                 (emit ''Downloading 10 classic books from Project Gutenberg...''
                   (st\<lparr>books := BOOKS\<rparr>)))))
        \<and> calls (snd (main rt w st)) = calls st @ BOOKS
        \<and> requests (snd (main rt w st)) = requests st @ map (\<lambda>item. book_request (fst item)) BOOKS)"
proof -
  have "length BOOKS = 10" by (simp add: BOOKS_def)
  moreover have "distinct BOOKS" by (simp add: BOOKS_def)
  moreover have "\<forall>(source_id, output_name) \<in> set BOOKS. 0 < source_id \<and> output_name \<noteq> []"
    by (simp add: BOOKS_def)
  moreover have "books (snd (download_gutenberg_book rt w book_id filename s)) = books s"
    by (simp add: download_gutenberg_book_log)
  moreover have "books (snd (download_books rt w items s)) = books s"
    by (rule download_books_books)
  moreover have "books (snd (download_all_books rt w s)) = books s"
    by (simp add: download_all_books_def download_books_books)
  moreover have "books (snd (main rt w st)) = BOOKS"
    by (rule main_books)
  moreover have "no_interrupts rt w \<and> console_ok w \<longrightarrow>
        main rt w st =
          (Inr (),
           emit (NL # ''Done!'')
             (fold (attempt rt w) BOOKS
               (emit (''Saving to: '' @ OUTPUT_DIR rt @ [NL])
                 (emit ''Downloading 10 classic books from Project Gutenberg...''
                   (st\<lparr>books := BOOKS\<rparr>)))))
        \<and> calls (snd (main rt w st)) = calls st @ BOOKS
        \<and> requests (snd (main rt w st)) = requests st @ map (\<lambda>item. book_request (fst item)) BOOKS"
    by (simp add: main_result fold_attempt_log)
  ultimately show ?thesis by blast
qed

theorem books_table_witness:
  "(84, ''frankenstein'') \<in> set BOOKS \<and> no_interrupts demo_rt demo_world \<and> console_ok demo_world
   \<and> calls (snd (main demo_rt demo_world st0)) = BOOKS
   \<and> books (snd (main demo_rt demo_world st0)) = BOOKS"
proof -
  have "(84, ''frankenstein'') \<in> set BOOKS" by (simp add: BOOKS_def)
  moreover have "calls (snd (main demo_rt demo_world st0)) = calls st0 @ BOOKS"
    using books_table [of demo_rt demo_world _ _ _ _ st0] no_interrupts_demo console_ok_demo by blast
  moreover have "books (snd (main demo_rt demo_world st0)) = BOOKS"
    using books_table [of demo_rt demo_world _ _ _ _ st0] by blast
  ultimately show ?thesis using no_interrupts_demo console_ok_demo by simp
qed

text \<open>
  Claim C9. The body is read and decoded before the output file is opened: when
  \<^verbatim>\<open>urlopen\<close>, \<^verbatim>\<open>read\<close> or \<^verbatim>\<open>decode\<close> raises, the call fails with that exception and
  every file is as it was. A failed call changes the files only after the file has been
  opened: either the failure is in the write itself, and then the output file holds the
  part of the text written so far, or the whole text has been written and it is the
  \<^verbatim>\<open>print\<close> after the write that raised, and then the output file is complete.
\<close>
theorem failure_before_open_leaves_files:
  "((urlopen (w (length (calls st))) (book_request book_id) = Inl e
      \<or> urlopen (w (length (calls st))) (book_request book_id) = Inr (Inl e)
      \<or> (\<exists>body. urlopen (w (length (calls st))) (book_request book_id) = Inr (Inr body)
            \<and> decode_utf8 rt body = Inl e))
     \<longrightarrow> fst (download_gutenberg_book rt w book_id filename st) = Inl e
         \<and> files (snd (download_gutenberg_book rt w book_id filename st)) = files st)
   \<and> (fst (download_gutenberg_book rt w book_id filename st) = Inl e
        \<and> files (snd (download_gutenberg_book rt w book_id filename st)) \<noteq> files st
     \<longrightarrow> (\<exists>body content.
            urlopen (w (length (calls st))) (book_request book_id) = Inr (Inr body)
          \<and> decode_utf8 rt body = Inr content
          \<and> open_w (w (length (calls st))) (output_path rt filename) = None
          \<and> ((\<exists>k. fwrite (w (length (calls st))) (output_path rt filename) content = Some (e, k)
                  \<and> files (snd (download_gutenberg_book rt w book_id filename st))
                      = (files st)(output_path rt filename \<mapsto>
                           take k (translate_newlines (linesep rt) content)))
              \<or> (fwrite (w (length (calls st))) (output_path rt filename) content = None
                  \<and> console (w (length (calls st))) (''Downloaded: '' @ filename @ ''.txt'') = Some e
                  \<and> files (snd (download_gutenberg_book rt w book_id filename st))
                      = (files st)(output_path rt filename \<mapsto>
                           translate_newlines (linesep rt) content)))))"
  by (auto simp add: dl_defs split: dl_splits)

theorem failure_before_open_leaves_files_witness:
  "fst (download_gutenberg_book demo_rt demo_world 9999 ''missing'' (st0\<lparr>calls := [(1342, ''pride-and-prejudice'')]\<rparr>))
     = Inl (PyExc HTTPError ''HTTP Error 404: Not Found'')
   \<and> files (snd (download_gutenberg_book demo_rt demo_world 9999 ''missing'' (st0\<lparr>calls := [(1342, ''pride-and-prejudice'')]\<rparr>)))
     = files (st0\<lparr>calls := [(1342, ''pride-and-prejudice'')]\<rparr>)
   \<and> fst (download_gutenberg_book demo_rt demo_world 76 ''huck'' (st0\<lparr>calls := replicate 4 (1342, ''pride-and-prejudice'')\<rparr>))
     = Inl (PyExc OSError ''[Errno 28] No space left on device'')
   \<and> files (snd (download_gutenberg_book demo_rt demo_world 76 ''huck'' (st0\<lparr>calls := replicate 4 (1342, ''pride-and-prejudice'')\<rparr>)))
        ''/srv/hearth/data/books/huck.txt'' = Some (codes ''Chapter'')"
proof -
  let ?s1 = "st0\<lparr>calls := [(1342, ''pride-and-prejudice'')]\<rparr>"
  let ?s4 = "st0\<lparr>calls := replicate 4 (1342, ''pride-and-prejudice'')\<rparr>"
  let ?d4 = "download_gutenberg_book demo_rt demo_world 76 ''huck'' ?s4"
  have a: "urlopen (demo_world (length (calls ?s1))) (book_request 9999)
             = Inl (PyExc HTTPError ''HTTP Error 404: Not Found'')"
    by (simp add: demo_world_def not_found_def)
  have one: "fst (download_gutenberg_book demo_rt demo_world 9999 ''missing'' ?s1)
               = Inl (PyExc HTTPError ''HTTP Error 404: Not Found'')
           \<and> files (snd (download_gutenberg_book demo_rt demo_world 9999 ''missing'' ?s1)) = files ?s1"
    using failure_before_open_leaves_files [of demo_world ?s1 9999
        "PyExc HTTPError ''HTTP Error 404: Not Found''" demo_rt "''missing''"] a
    by blast
  have r4: "?d4 = (Inl (PyExc OSError ''[Errno 28] No space left on device''),
       ?s4\<lparr>files := (files ?s4)(output_path demo_rt ''huck'' \<mapsto>
                take 7 (translate_newlines (linesep demo_rt) (codes ''Chapter 1...''))),
            requests := requests ?s4 @ [book_request 76],
            calls := calls ?s4 @ [(76, ''huck'')]\<rparr>)"
    by (rule download_write_failure_state [where body = chapter_bytes])
       (simp_all add: demo_world_def disk_full_def decode_chapter)
  have f4: "fst ?d4 = Inl (PyExc OSError ''[Errno 28] No space left on device'')"
    and c4: "files (snd ?d4) ''/srv/hearth/data/books/huck.txt'' = Some (codes ''Chapter'')"
    by (simp_all add: r4 output_path_demo codes_def)
  have "files (snd ?d4) \<noteq> files ?s4"
  proof
    assume "files (snd ?d4) = files ?s4"
    then have "files (snd ?d4) ''/srv/hearth/data/books/huck.txt'' = files ?s4 ''/srv/hearth/data/books/huck.txt''"
      by simp
    with c4 show False by simp
  qed
  with f4 failure_before_open_leaves_files [of demo_world ?s4 76
        "PyExc OSError ''[Errno 28] No space left on device''" demo_rt "''huck''"]
  have "\<exists>body content. urlopen (demo_world (length (calls ?s4))) (book_request 76) = Inr (Inr body)
          \<and> decode_utf8 demo_rt body = Inr content"
    by blast
  with one f4 c4 show ?thesis by blast
qed

text \<open>
  Claim C10. The handler catches instances of \<^verbatim>\<open>Exception\<close> only. When the items before
  item \<open>i\<close> have been processed and the download of item \<open>i\<close> raises an exception that
  is not one (\<^verbatim>\<open>KeyboardInterrupt\<close>, \<^verbatim>\<open>SystemExit\<close>), the loop ends with that exception:
  the calls and requests made are those for the items up to \<open>i\<close>, no line is printed for
  item \<open>i\<close>, and no later item is attempted.
\<close>
theorem interrupt_leaves_the_loop:
  assumes "fst (download_books rt w pre st) = Inr ()"
    and "fst (download_gutenberg_book rt w book_id filename (snd (download_books rt w pre st))) = Inl e"
    and "\<not> isinstance_Exception e"
  shows "download_books rt w (pre @ (book_id, filename) # post) st =
           (Inl e, snd (download_gutenberg_book rt w book_id filename (snd (download_books rt w pre st))))
       \<and> calls (snd (download_books rt w (pre @ (book_id, filename) # post) st))
           = calls st @ pre @ [(book_id, filename)]
       \<and> requests (snd (download_books rt w (pre @ (book_id, filename) # post) st))
           = requests st @ map (\<lambda>item. book_request (fst item)) (pre @ [(book_id, filename)])
       \<and> stdout (snd (download_books rt w (pre @ (book_id, filename) # post) st))
           = stdout (snd (download_books rt w pre st))"
proof -
  let ?s1 = "snd (download_books rt w pre st)"
  let ?d = "download_gutenberg_book rt w book_id filename ?s1"
  have run: "download_books rt w (pre @ (book_id, filename) # post) st = (Inl e, snd ?d)"
    using assms by (simp add: download_books_append case_prod_unfold split: sum.splits)
  have log1: "calls ?s1 = calls st @ pre"
       "requests ?s1 = requests st @ map (\<lambda>item. book_request (fst item)) pre"
    using download_books_returns_log [OF assms(1)] by simp_all
  have log2: "calls (snd ?d) = calls ?s1 @ [(book_id, filename)]"
       "requests (snd ?d) = requests ?s1 @ [book_request book_id]"
    using download_gutenberg_book_log [of rt w book_id filename ?s1] by simp_all
  have out: "stdout (snd ?d) = stdout ?s1"
    using download_stdout [of rt w book_id filename ?s1] assms(2) by simp
  from run log1 log2 out show ?thesis by simp
qed

theorem interrupt_leaves_the_loop_witness:
  "download_books demo_rt interrupted_world
     [(1342, ''pride-and-prejudice''), (2701, ''moby-dick''), (84, ''frankenstein'')] st0
   = (Inl (PyExc KeyboardInterrupt []),
      snd (download_gutenberg_book demo_rt interrupted_world 2701 ''moby-dick''
            (snd (download_books demo_rt interrupted_world [(1342, ''pride-and-prejudice'')] st0))))
   \<and> calls (snd (download_books demo_rt interrupted_world
        [(1342, ''pride-and-prejudice''), (2701, ''moby-dick''), (84, ''frankenstein'')] st0))
      = [(1342, ''pride-and-prejudice''), (2701, ''moby-dick'')]"
proof -
  let ?pre = "[(1342, ''pride-and-prejudice'')]"
  have d0: "download_gutenberg_book demo_rt interrupted_world 1342 ''pride-and-prejudice'' st0
      = (Inr (output_path demo_rt ''pride-and-prejudice''),
         st0\<lparr>files := (files st0)(output_path demo_rt ''pride-and-prejudice'' \<mapsto>
                   translate_newlines (linesep demo_rt) (codes ''Chapter 1...'')),
            stdout := stdout st0 @ [''Downloaded: '' @ ''pride-and-prejudice'' @ ''.txt''],
            requests := requests st0 @ [book_request 1342],
            calls := calls st0 @ [(1342, ''pride-and-prejudice'')]\<rparr>)"
    by (rule download_success_state [where body = chapter_bytes])
       (simp_all add: interrupted_world_def serve_def decode_chapter)
  have pre: "download_books demo_rt interrupted_world ?pre st0
      = (Inr (), st0\<lparr>files := (files st0)(output_path demo_rt ''pride-and-prejudice'' \<mapsto>
                   translate_newlines (linesep demo_rt) (codes ''Chapter 1...'')),
            stdout := stdout st0 @ [''Downloaded: '' @ ''pride-and-prejudice'' @ ''.txt''],
            requests := requests st0 @ [book_request 1342],
            calls := calls st0 @ [(1342, ''pride-and-prejudice'')]\<rparr>)"
    by (simp add: d0)
  have h1: "fst (download_books demo_rt interrupted_world ?pre st0) = Inr ()"
    unfolding pre by simp
  have h2: "fst (download_gutenberg_book demo_rt interrupted_world 2701 ''moby-dick''
               (snd (download_books demo_rt interrupted_world ?pre st0))) = Inl (PyExc KeyboardInterrupt [])"
  proof -
    have "urlopen (interrupted_world (length (calls (snd (download_books demo_rt interrupted_world ?pre st0)))))
            (book_request 2701) = Inl (PyExc KeyboardInterrupt [])"
      unfolding pre by (simp add: interrupted_world_def ctrl_c_def)
    then show ?thesis
      unfolding download_raises_cases Let_def by blast
  qed
  have h3: "\<not> isinstance_Exception (PyExc KeyboardInterrupt [])" by simp
  from interrupt_leaves_the_loop [OF h1 h2 h3, of "[(84, ''frankenstein'')]"]
  have "download_books demo_rt interrupted_world (?pre @ (2701, ''moby-dick'') # [(84, ''frankenstein'')]) st0
     = (Inl (PyExc KeyboardInterrupt []),
        snd (download_gutenberg_book demo_rt interrupted_world 2701 ''moby-dick''
              (snd (download_books demo_rt interrupted_world ?pre st0))))"
   and "calls (snd (download_books demo_rt interrupted_world
          (?pre @ (2701, ''moby-dick'') # [(84, ''frankenstein'')]) st0))
        = calls st0 @ ?pre @ [(2701, ''moby-dick'')]"
    by blast+
  then show ?thesis
    by (simp only: append_Cons append_Nil st0_fields)
qed

end
